theory Spec2Isabelle
  imports Complex_Main "HOL-Library.Log_Nat"
begin

section \<open>Python values, enumerations and exceptions\<close>

text \<open>
  The program is dynamically typed: a constructor argument or an increment may be any
  Python object, and the code tells integers from the rest with \<^verbatim>\<open>isinstance(x, int)\<close>.
  The scalar values are modelled. \<^verbatim>\<open>bool\<close> is a subclass of \<^verbatim>\<open>int\<close> in Python, so
  \<^verbatim>\<open>True\<close> and \<^verbatim>\<open>False\<close> pass the test and count as 1 and 0.
\<close>

datatype pyval = PyInt int | PyBool bool | PyFloat rat | PyStr string | PyNone

text \<open>\<^verbatim>\<open>isinstance(x, int)\<close>, together with the integer the object stands for.\<close>

fun as_int :: "pyval \<Rightarrow> int option" where
  "as_int (PyInt n) = Some n"
| "as_int (PyBool b) = Some (if b then 1 else 0)"
| "as_int (PyFloat f) = None"
| "as_int (PyStr s) = None"
| "as_int PyNone = None"

definition isinstance_int :: "pyval \<Rightarrow> bool" where
  "isinstance_int x = (as_int x \<noteq> None)"

text \<open>
  The integer value of an object that has passed \<^verbatim>\<open>isinstance(x, int)\<close>. The code
  only does arithmetic on a value after that test, so no equation is given for the
  other objects.
\<close>

fun int_of :: "pyval \<Rightarrow> int" where
  "int_of (PyInt n) = n"
| "int_of (PyBool b) = (if b then 1 else 0)"

text \<open>
  An argument annotated with an enumeration type: one of its members, or any other
  object (the tests pass the string \<^verbatim>\<open>"invalid"\<close>). An enumeration member is equal
  only to itself, so no other object is a key of a dictionary keyed by members.
\<close>

datatype 'e arg = Member 'e | NonMember pyval

text \<open>
  \<^verbatim>\<open>class Ability(Enum)\<close>, the same in both files. Iterating the class yields the
  members in definition order, which is not the order of the constructor parameters
  (there \<^verbatim>\<open>wisdom\<close> comes before \<^verbatim>\<open>intelligence\<close>).
\<close>

datatype Ability = STRENGTH | DEXTERITY | CONSTITUTION | INTELLIGENCE | WISDOM | CHARISMA

definition Ability_members :: "Ability list" where
  "Ability_members = [STRENGTH, DEXTERITY, CONSTITUTION, INTELLIGENCE, WISDOM, CHARISMA]"

text \<open>
  The enumeration of the three bonus layers: \<^verbatim>\<open>ComponentScore\<close> in the first file,
  \<^verbatim>\<open>BonusType\<close> in the second. Neither has a member for the base layer.
\<close>

datatype ComponentScore = RACIAL_BONUS | FEAT_BONUS | LEVEL_BONUS

datatype BonusType = RACIAL | FEAT | LEVEL

text \<open>
  Every \<^verbatim>\<open>raise\<close> of the two files raises \<^verbatim>\<open>ValueError\<close> with a message; one
  constructor per message, carrying the values the f-string interpolates.

  First file (\<^verbatim>\<open>ability_score.py\<close>):
  \<^item> \<open>AllAttributesNonNegativeIntegers\<close>: "All attributes must be non-negative integers"
  \<^item> \<open>AllRacialBonusesIntegers\<close>: "All racial bonuses must be integers"
  \<^item> \<open>AllFeatBonusesIntegers\<close>: "All feat bonuses must be integers"
  \<^item> \<open>AllLevelBonusesIntegers\<close>: "All level bonuses must be integers"
  \<^item> \<open>InvalidComponent c\<close>: "Invalid component: {component}. Must be one of ..."
  \<^item> \<open>IncrementMustBeInteger a\<close>: "Increment for {ability.name} must be an integer"
  \<^item> \<open>IncrementMustBePositive a\<close>: "Increment for {ability.name} must be positive"
  \<^item> \<open>IncrementWouldExceed a t m\<close>:
    "Increment would cause {ability.name} ({new_total}) to exceed MAX_ATTRIBUTE ({MAX_TOTAL})"

  Second file (\<^verbatim>\<open>src/ability_score.py\<close>):
  \<^item> \<open>MustBeInteger a\<close>: "{ability.name} must be an integer"
  \<^item> \<open>CannotBeNegativeForBonuses a\<close>: "{ability.name} cannot be negative for bonuses"
  \<^item> \<open>BaseMustBeNonNegative a\<close>: "Base {ability.name} must be non-negative"
  \<^item> \<open>BonusTypeMustBeEnum\<close>: "Bonus type must be a BonusType enum value"
  \<^item> \<open>RacialBonusMustHaveType\<close>: "Racial bonus must have bonus_type=BonusType.RACIAL"
  \<^item> \<open>FeatBonusMustHaveType\<close>: "Feat bonus must have bonus_type=BonusType.FEAT"
  \<^item> \<open>LevelBonusMustHaveType\<close>: "Level bonus must have bonus_type=BonusType.LEVEL"
  \<^item> \<open>InvalidBonusType b\<close>: "Invalid bonus type: {bonus_type}"
  \<^item> \<open>BonusMustBePositiveInteger a\<close>: "Bonus for {ability.name} must be a positive integer"
  \<^item> \<open>BonusWouldExceed a t m\<close>:
    "Bonus would cause {ability.name} ({new_total}) to exceed {MAX_SCORE}"
\<close>

datatype message =
    AllAttributesNonNegativeIntegers
  | AllRacialBonusesIntegers
  | AllFeatBonusesIntegers
  | AllLevelBonusesIntegers
  | InvalidComponent "ComponentScore arg"
  | IncrementMustBeInteger Ability
  | IncrementMustBePositive Ability
  | IncrementWouldExceed Ability int int
  | MustBeInteger Ability
  | CannotBeNegativeForBonuses Ability
  | BaseMustBeNonNegative Ability
  | BonusTypeMustBeEnum
  | RacialBonusMustHaveType
  | FeatBonusMustHaveType
  | LevelBonusMustHaveType
  | InvalidBonusType "BonusType arg"
  | BonusMustBePositiveInteger Ability
  | BonusWouldExceed Ability int int

text \<open>
  Besides \<^verbatim>\<open>ValueError\<close>, the true division in the modifier formula can raise
  \<^verbatim>\<open>OverflowError\<close> ("integer division result too large for a float") and, for a zero
  divisor, \<^verbatim>\<open>ZeroDivisionError\<close>.
\<close>

datatype exn = ValueError message | OverflowError | ZeroDivisionError

section \<open>The arithmetic of the modifier: \<^verbatim>\<open>math.floor(x / 2)\<close>\<close>

text \<open>
  \<^verbatim>\<open>/\<close> on two Python integers is true division: the result is the binary64 float
  nearest to the exact quotient (ties to the even significand), and the division raises
  \<^verbatim>\<open>OverflowError\<close> when that float would not be finite. A finite float is a rational
  number, and is modelled by it. \<open>bitlen\<close> is the number of binary digits of a positive
  integer, so that the quotient of a by b lies strictly between \<open>2^(e0-1)\<close> and
  \<open>2^(e0+1)\<close> for \<open>e0 = bitlen |a| - bitlen |b|\<close>.
\<close>

definition pow2 :: "int \<Rightarrow> rat" where
  "pow2 e = (if 0 \<le> e then 2 ^ nat e else 1 / 2 ^ nat (- e))"

definition round_half_even :: "rat \<Rightarrow> int" where
  "round_half_even r =
     (let f = \<lfloor>r\<rfloor>; d = r - of_int f
      in if d < 1 / 2 then f
         else if 1 / 2 < d then f + 1
         else if even f then f else f + 1)"

definition int_truediv :: "int \<Rightarrow> int \<Rightarrow> exn + rat" where
  "int_truediv a b =
     (if b = 0 then Inl ZeroDivisionError
      else if a = 0 then Inr 0
      else
        let q = abs (of_int a / of_int b);
            e0 = bitlen (abs a) - bitlen (abs b);
            e = (if pow2 e0 \<le> q then e0 else e0 - 1);
            ulp = pow2 (max e (- 1022) - 52);
            r = of_int (round_half_even (q / ulp)) * ulp
        in if pow2 1024 \<le> r then Inl OverflowError
           else Inr (if (a < 0) = (b < 0) then r else - r))"

text \<open>\<^verbatim>\<open>math.floor\<close> of a finite float: the greatest integer below it.\<close>

definition math_floor :: "rat \<Rightarrow> int" where
  "math_floor x = \<lfloor>x\<rfloor>"

text \<open>\<^verbatim>\<open>math.floor(a / b)\<close> on integers a and b, as every modifier computes it.\<close>

definition floor_truediv :: "int \<Rightarrow> int \<Rightarrow> exn + int" where
  "floor_truediv a b =
     (case int_truediv a b of
        Inl e \<Rightarrow> Inl e
      | Inr x \<Rightarrow> Inr (math_floor x))"

section \<open>First file: \<^verbatim>\<open>ability_score.py\<close>\<close>

definition MAX_TOTAL :: int where
  "MAX_TOTAL = 20"

text \<open>
  \<^verbatim>\<open>class CharacterAbility\<close>: six attributes, stored by \<^verbatim>\<open>__init__\<close> without any
  check. Its four subclasses add no attribute, so an instance of any of them is a
  value of this record; the subclass constructors below validate before they store,
  and the record holds the integers they have accepted.
\<close>

record CharacterAbility =
  strength :: int
  dexterity :: int
  constitution :: int
  wisdom :: int
  intelligence :: int
  charisma :: int

definition CharacterAbility_init ::
  "pyval \<Rightarrow> pyval \<Rightarrow> pyval \<Rightarrow> pyval \<Rightarrow> pyval \<Rightarrow> pyval \<Rightarrow> CharacterAbility" where
  "CharacterAbility_init s d c w i ch =
     \<lparr>strength = int_of s, dexterity = int_of d, constitution = int_of c,
      wisdom = int_of w, intelligence = int_of i, charisma = int_of ch\<rparr>"

text \<open>\<^verbatim>\<open>isinstance(x, int) and x >= 0\<close>; \<^verbatim>\<open>and\<close> does not compare a non-integer.\<close>

definition non_negative_integer :: "pyval \<Rightarrow> bool" where
  "non_negative_integer x = (case as_int x of None \<Rightarrow> False | Some n \<Rightarrow> 0 \<le> n)"

definition ScoreBase_init ::
  "pyval \<Rightarrow> pyval \<Rightarrow> pyval \<Rightarrow> pyval \<Rightarrow> pyval \<Rightarrow> pyval \<Rightarrow> exn + CharacterAbility" where
  "ScoreBase_init s d c w i ch =
     (if \<not> list_all non_negative_integer [s, d, c, w, i, ch]
      then Inl (ValueError AllAttributesNonNegativeIntegers)
      else Inr (CharacterAbility_init s d c w i ch))"

definition RacialBonus_init ::
  "pyval \<Rightarrow> pyval \<Rightarrow> pyval \<Rightarrow> pyval \<Rightarrow> pyval \<Rightarrow> pyval \<Rightarrow> exn + CharacterAbility" where
  "RacialBonus_init s d c w i ch =
     (if \<not> list_all isinstance_int [s, d, c, w, i, ch]
      then Inl (ValueError AllRacialBonusesIntegers)
      else Inr (CharacterAbility_init s d c w i ch))"

definition FeatBonus_init ::
  "pyval \<Rightarrow> pyval \<Rightarrow> pyval \<Rightarrow> pyval \<Rightarrow> pyval \<Rightarrow> pyval \<Rightarrow> exn + CharacterAbility" where
  "FeatBonus_init s d c w i ch =
     (if \<not> list_all isinstance_int [s, d, c, w, i, ch]
      then Inl (ValueError AllFeatBonusesIntegers)
      else Inr (CharacterAbility_init s d c w i ch))"

definition LevelBonus_init ::
  "pyval \<Rightarrow> pyval \<Rightarrow> pyval \<Rightarrow> pyval \<Rightarrow> pyval \<Rightarrow> pyval \<Rightarrow> exn + CharacterAbility" where
  "LevelBonus_init s d c w i ch =
     (if \<not> list_all isinstance_int [s, d, c, w, i, ch]
      then Inl (ValueError AllLevelBonusesIntegers)
      else Inr (CharacterAbility_init s d c w i ch))"

text \<open>
  \<^verbatim>\<open>class AbilityScores\<close>. The four attributes are references to objects that the
  instance alone is taken to hold (the specification forbids callers to keep a
  reference), so the objects themselves are the fields of the record and a mutation of
  \<^verbatim>\<open>target\<close> in \<^verbatim>\<open>increment_attribute\<close> is an update of the field it was read from.
  An omitted bonus argument is \<^verbatim>\<open>None\<close>, and \<^verbatim>\<open>racial or RacialBonus()\<close> then builds
  the all-zero default (an instance of these classes is always truthy).
\<close>

record AbilityScores =
  score_base :: CharacterAbility
  racial_bonus :: CharacterAbility
  feat_bonus :: CharacterAbility
  level_bonus :: CharacterAbility

definition or_default :: "'a option \<Rightarrow> exn + 'a \<Rightarrow> exn + 'a" where
  "or_default x d = (case x of Some v \<Rightarrow> Inr v | None \<Rightarrow> d)"

definition AbilityScores_init ::
  "CharacterAbility \<Rightarrow> CharacterAbility option \<Rightarrow> CharacterAbility option \<Rightarrow>
   CharacterAbility option \<Rightarrow> exn + AbilityScores" where
  "AbilityScores_init base racial feat level =
     (case or_default racial
             (RacialBonus_init (PyInt 0) (PyInt 0) (PyInt 0) (PyInt 0) (PyInt 0) (PyInt 0)) of
        Inl e \<Rightarrow> Inl e
      | Inr r \<Rightarrow>
     (case or_default feat
             (FeatBonus_init (PyInt 0) (PyInt 0) (PyInt 0) (PyInt 0) (PyInt 0) (PyInt 0)) of
        Inl e \<Rightarrow> Inl e
      | Inr f \<Rightarrow>
     (case or_default level
             (LevelBonus_init (PyInt 0) (PyInt 0) (PyInt 0) (PyInt 0) (PyInt 0) (PyInt 0)) of
        Inl e \<Rightarrow> Inl e
      | Inr l \<Rightarrow>
          Inr \<lparr>score_base = base, racial_bonus = r, feat_bonus = f, level_bonus = l\<rparr>)))"

text \<open>\<^verbatim>\<open>getattr(c, attribute.attr_name)\<close> and \<^verbatim>\<open>setattr(c, attribute.attr_name, v)\<close>.\<close>

fun getattr_attr_name :: "CharacterAbility \<Rightarrow> Ability \<Rightarrow> int" where
  "getattr_attr_name c STRENGTH = strength c"
| "getattr_attr_name c DEXTERITY = dexterity c"
| "getattr_attr_name c CONSTITUTION = constitution c"
| "getattr_attr_name c INTELLIGENCE = intelligence c"
| "getattr_attr_name c WISDOM = wisdom c"
| "getattr_attr_name c CHARISMA = charisma c"

fun setattr_attr_name :: "CharacterAbility \<Rightarrow> Ability \<Rightarrow> int \<Rightarrow> CharacterAbility" where
  "setattr_attr_name c STRENGTH v = c\<lparr>strength := v\<rparr>"
| "setattr_attr_name c DEXTERITY v = c\<lparr>dexterity := v\<rparr>"
| "setattr_attr_name c CONSTITUTION v = c\<lparr>constitution := v\<rparr>"
| "setattr_attr_name c INTELLIGENCE v = c\<lparr>intelligence := v\<rparr>"
| "setattr_attr_name c WISDOM v = c\<lparr>wisdom := v\<rparr>"
| "setattr_attr_name c CHARISMA v = c\<lparr>charisma := v\<rparr>"

text \<open>
  \<^verbatim>\<open>_sum_scores\<close>: the sum over the four components that are instances of
  \<^verbatim>\<open>CharacterAbility\<close>; every value of the record is one.
\<close>

definition isinstance_CharacterAbility :: "CharacterAbility \<Rightarrow> bool" where
  "isinstance_CharacterAbility c = True"

definition sum_scores :: "AbilityScores \<Rightarrow> Ability \<Rightarrow> int" where
  "sum_scores self attribute =
     sum_list (map (\<lambda>c. getattr_attr_name c attribute)
       (filter isinstance_CharacterAbility
          [score_base self, racial_bonus self, feat_bonus self, level_bonus self]))"

definition strength_mod :: "AbilityScores \<Rightarrow> exn + int" where
  "strength_mod self = (let v = sum_scores self STRENGTH in floor_truediv (v - 10) 2)"

definition dexterity_mod :: "AbilityScores \<Rightarrow> exn + int" where
  "dexterity_mod self = (let v = sum_scores self DEXTERITY in floor_truediv (v - 10) 2)"

definition constitution_mod :: "AbilityScores \<Rightarrow> exn + int" where
  "constitution_mod self = (let v = sum_scores self CONSTITUTION in floor_truediv (v - 10) 2)"

definition wisdom_mod :: "AbilityScores \<Rightarrow> exn + int" where
  "wisdom_mod self = (let v = sum_scores self WISDOM in floor_truediv (v - 10) 2)"

definition intelligence_mod :: "AbilityScores \<Rightarrow> exn + int" where
  "intelligence_mod self = (let v = sum_scores self INTELLIGENCE in floor_truediv (v - 10) 2)"

definition charisma_mod :: "AbilityScores \<Rightarrow> exn + int" where
  "charisma_mod self = (let v = sum_scores self CHARISMA in floor_truediv (v - 10) 2)"

text \<open>
  \<^verbatim>\<open>increment_attribute\<close>. The dictionary \<^verbatim>\<open>increments\<close> is the list of its items in
  iteration order. The guard
  \<^verbatim>\<open>component not in component_map or not isinstance(component, ComponentScore)\<close>
  holds for an object that is no member, and for a member that is no key of
  \<^verbatim>\<open>component_map\<close>.
\<close>

definition component_map :: "AbilityScores \<Rightarrow> ComponentScore \<rightharpoonup> CharacterAbility" where
  "component_map self =
     [RACIAL_BONUS \<mapsto> racial_bonus self, FEAT_BONUS \<mapsto> feat_bonus self,
      LEVEL_BONUS \<mapsto> level_bonus self]"

text \<open>Writing through the reference \<^verbatim>\<open>target = component_map[component]\<close>.\<close>

fun store_component :: "AbilityScores \<Rightarrow> ComponentScore \<Rightarrow> CharacterAbility \<Rightarrow> AbilityScores" where
  "store_component self RACIAL_BONUS t = self\<lparr>racial_bonus := t\<rparr>"
| "store_component self FEAT_BONUS t = self\<lparr>feat_bonus := t\<rparr>"
| "store_component self LEVEL_BONUS t = self\<lparr>level_bonus := t\<rparr>"

text \<open>First loop: every amount is an integer, and positive.\<close>

fun check_amounts :: "(Ability \<times> pyval) list \<Rightarrow> exn option" where
  "check_amounts [] = None"
| "check_amounts ((ability, amount) # rest) =
     (if \<not> isinstance_int amount then Some (ValueError (IncrementMustBeInteger ability))
      else if int_of amount \<le> 0 then Some (ValueError (IncrementMustBePositive ability))
      else check_amounts rest)"

text \<open>Second loop: no new total exceeds \<^verbatim>\<open>MAX_TOTAL\<close>.\<close>

fun check_totals :: "AbilityScores \<Rightarrow> (Ability \<times> pyval) list \<Rightarrow> exn option" where
  "check_totals self [] = None"
| "check_totals self ((ability, amount) # rest) =
     (let current_total = sum_scores self ability;
          new_total = current_total + int_of amount
      in if new_total > MAX_TOTAL
         then Some (ValueError (IncrementWouldExceed ability new_total MAX_TOTAL))
         else check_totals self rest)"

text \<open>Third loop: the increments are added to the target, one after the other.\<close>

fun add_increments :: "CharacterAbility \<Rightarrow> (Ability \<times> pyval) list \<Rightarrow> CharacterAbility" where
  "add_increments target [] = target"
| "add_increments target ((ability, amount) # rest) =
     (let current_value = getattr_attr_name target ability
      in add_increments (setattr_attr_name target ability (current_value + int_of amount)) rest)"

text \<open>
  The result is the exception raised, if any, and the state of the object when the
  call ends.
\<close>

definition increment_attribute ::
  "AbilityScores \<Rightarrow> ComponentScore arg \<Rightarrow> (Ability \<times> pyval) list \<Rightarrow> exn option \<times> AbilityScores" where
  "increment_attribute self component increments =
     (case component of
        NonMember c \<Rightarrow> (Some (ValueError (InvalidComponent component)), self)
      | Member k \<Rightarrow>
     (case component_map self k of
        None \<Rightarrow> (Some (ValueError (InvalidComponent component)), self)
      | Some target \<Rightarrow>
     (case check_amounts increments of
        Some e \<Rightarrow> (Some e, self)
      | None \<Rightarrow>
     (case check_totals self increments of
        Some e \<Rightarrow> (Some e, self)
      | None \<Rightarrow> (None, store_component self k (add_increments target increments))))))"

text \<open>
  The class of an object of the first file. The record \<open>CharacterAbility\<close> keeps the
  attributes of an instance; what a caller holds is an object of one of the four
  subclasses, its class together with its attributes. \<open>new_object k\<close> is the call of
  the class \<open>k\<close>, which runs the \<^verbatim>\<open>__init__\<close> of that class.
\<close>

datatype layer_class = ScoreBase | RacialBonus | FeatBonus | LevelBonus

type_synonym layer_object = "layer_class \<times> CharacterAbility"

fun class_init ::
  "layer_class \<Rightarrow> pyval \<Rightarrow> pyval \<Rightarrow> pyval \<Rightarrow> pyval \<Rightarrow> pyval \<Rightarrow> pyval \<Rightarrow> exn + CharacterAbility" where
  "class_init ScoreBase = ScoreBase_init"
| "class_init RacialBonus = RacialBonus_init"
| "class_init FeatBonus = FeatBonus_init"
| "class_init LevelBonus = LevelBonus_init"

definition new_object ::
  "layer_class \<Rightarrow> pyval \<Rightarrow> pyval \<Rightarrow> pyval \<Rightarrow> pyval \<Rightarrow> pyval \<Rightarrow> pyval \<Rightarrow> exn + layer_object" where
  "new_object k s d c w i ch =
     (case class_init k s d c w i ch of
        Inl e \<Rightarrow> Inl e
      | Inr r \<Rightarrow> Inr (k, r))"

text \<open>
  \<^verbatim>\<open>AbilityScores(base, racial, feat, level)\<close> on objects. \<^verbatim>\<open>__init__\<close> assigns each
  argument (or the default of its slot) to an attribute and reads neither the class nor
  the attributes of what it is given: there is no \<^verbatim>\<open>isinstance\<close> and no comparison in
  it. The aggregate therefore is the aggregate of the attributes of the objects, whatever
  their classes.
\<close>

definition AbilityScores_call ::
  "layer_object \<Rightarrow> layer_object option \<Rightarrow> layer_object option \<Rightarrow> layer_object option \<Rightarrow>
   exn + AbilityScores" where
  "AbilityScores_call base racial feat level =
     AbilityScores_init (snd base) (map_option snd racial) (map_option snd feat)
       (map_option snd level)"

section \<open>Second file: \<^verbatim>\<open>src/ability_score.py\<close>\<close>

definition MAX_SCORE :: int where
  "MAX_SCORE = 20"

text \<open>
  The dataclasses. \<^verbatim>\<open>BaseAbilities\<close> adds no field to \<^verbatim>\<open>AbilitySet\<close>;
  \<^verbatim>\<open>AbilityBonus\<close> adds \<^verbatim>\<open>bonus_type\<close>, and \<^verbatim>\<open>RacialBonus\<close>, \<^verbatim>\<open>FeatBonus\<close> and
  \<^verbatim>\<open>LevelBonus\<close> are aliases of it. The records hold the integers that
  \<^verbatim>\<open>__post_init__\<close> has accepted.
\<close>

record AbilitySet =
  strength :: int
  dexterity :: int
  constitution :: int
  wisdom :: int
  intelligence :: int
  charisma :: int

record AbilityBonus = AbilitySet +
  bonus_type :: BonusType

type_synonym BaseAbilities = AbilitySet

text \<open>
  The generated \<^verbatim>\<open>__init__\<close> assigns the arguments to the fields and then calls
  \<^verbatim>\<open>__post_init__\<close>, which reads them back with \<^verbatim>\<open>getattr(self, ability.field_name)\<close>.
\<close>

fun dataclass_field ::
  "pyval \<Rightarrow> pyval \<Rightarrow> pyval \<Rightarrow> pyval \<Rightarrow> pyval \<Rightarrow> pyval \<Rightarrow> Ability \<Rightarrow> pyval" where
  "dataclass_field s d c w i ch STRENGTH = s"
| "dataclass_field s d c w i ch DEXTERITY = d"
| "dataclass_field s d c w i ch CONSTITUTION = c"
| "dataclass_field s d c w i ch INTELLIGENCE = i"
| "dataclass_field s d c w i ch WISDOM = w"
| "dataclass_field s d c w i ch CHARISMA = ch"

text \<open>
  \<^verbatim>\<open>AbilitySet.__post_init__\<close>, the loop over \<^verbatim>\<open>Ability\<close>; \<open>is_base\<close> is
  \<^verbatim>\<open>isinstance(self, BaseAbilities)\<close>.
\<close>

fun AbilitySet_post_init :: "bool \<Rightarrow> (Ability \<Rightarrow> pyval) \<Rightarrow> Ability list \<Rightarrow> exn option" where
  "AbilitySet_post_init is_base self [] = None"
| "AbilitySet_post_init is_base self (ability # rest) =
     (let v = self ability
      in if \<not> isinstance_int v then Some (ValueError (MustBeInteger ability))
         else if int_of v < 0 \<and> \<not> is_base
              then Some (ValueError (CannotBeNegativeForBonuses ability))
         else AbilitySet_post_init is_base self rest)"

text \<open>The loop of \<^verbatim>\<open>BaseAbilities.__post_init__\<close>, after the call of \<^verbatim>\<open>super()\<close>.\<close>

fun base_non_negative :: "(Ability \<Rightarrow> pyval) \<Rightarrow> Ability list \<Rightarrow> exn option" where
  "base_non_negative self [] = None"
| "base_non_negative self (ability # rest) =
     (if int_of (self ability) < 0 then Some (ValueError (BaseMustBeNonNegative ability))
      else base_non_negative self rest)"

definition BaseAbilities_post_init :: "(Ability \<Rightarrow> pyval) \<Rightarrow> exn option" where
  "BaseAbilities_post_init self =
     (case AbilitySet_post_init True self Ability_members of
        Some e \<Rightarrow> Some e
      | None \<Rightarrow> base_non_negative self Ability_members)"

definition BaseAbilities_init ::
  "pyval \<Rightarrow> pyval \<Rightarrow> pyval \<Rightarrow> pyval \<Rightarrow> pyval \<Rightarrow> pyval \<Rightarrow> exn + BaseAbilities" where
  "BaseAbilities_init s d c w i ch =
     (case BaseAbilities_post_init (dataclass_field s d c w i ch) of
        Some e \<Rightarrow> Inl e
      | None \<Rightarrow>
          Inr \<lparr>strength = int_of s, dexterity = int_of d, constitution = int_of c,
               wisdom = int_of w, intelligence = int_of i, charisma = int_of ch\<rparr>)"

definition AbilityBonus_post_init :: "(Ability \<Rightarrow> pyval) \<Rightarrow> BonusType arg \<Rightarrow> exn option" where
  "AbilityBonus_post_init self bt =
     (case AbilitySet_post_init False self Ability_members of
        Some e \<Rightarrow> Some e
      | None \<Rightarrow>
          (case bt of
             NonMember x \<Rightarrow> Some (ValueError BonusTypeMustBeEnum)
           | Member t \<Rightarrow> None))"

definition AbilityBonus_init ::
  "pyval \<Rightarrow> pyval \<Rightarrow> pyval \<Rightarrow> pyval \<Rightarrow> pyval \<Rightarrow> pyval \<Rightarrow> BonusType arg \<Rightarrow> exn + AbilityBonus" where
  "AbilityBonus_init s d c w i ch bt =
     (case AbilityBonus_post_init (dataclass_field s d c w i ch) bt of
        Some e \<Rightarrow> Inl e
      | None \<Rightarrow>
          (case bt of
             NonMember x \<Rightarrow> Inl (ValueError BonusTypeMustBeEnum)
           | Member t \<Rightarrow>
               Inr \<lparr>strength = int_of s, dexterity = int_of d, constitution = int_of c,
                    wisdom = int_of w, intelligence = int_of i, charisma = int_of ch,
                    bonus_type = t\<rparr>))"

text \<open>
  \<^verbatim>\<open>class CharacterStats\<close>. As in the first file the four attributes are references
  to objects held by the instance alone, and are the fields of the record.
  \<^verbatim>\<open>_score_components\<close> is the list of the same four references, so it is read off
  the fields: a bonus added through \<^verbatim>\<open>target\<close> is seen by \<^verbatim>\<open>total_score\<close>.
\<close>

record CharacterStats =
  base_abilities :: BaseAbilities
  racial_bonus :: AbilityBonus
  feat_bonus :: AbilityBonus
  level_bonus :: AbilityBonus

definition score_components :: "CharacterStats \<Rightarrow> AbilitySet list" where
  "score_components self =
     [base_abilities self, AbilitySet.truncate (racial_bonus self),
      AbilitySet.truncate (feat_bonus self), AbilitySet.truncate (level_bonus self)]"

definition CharacterStats_init ::
  "BaseAbilities \<Rightarrow> AbilityBonus option \<Rightarrow> AbilityBonus option \<Rightarrow> AbilityBonus option \<Rightarrow>
   exn + CharacterStats" where
  "CharacterStats_init base racial feat level =
     (case or_default racial
             (AbilityBonus_init (PyInt 0) (PyInt 0) (PyInt 0) (PyInt 0) (PyInt 0) (PyInt 0)
                (Member RACIAL)) of
        Inl e \<Rightarrow> Inl e
      | Inr r \<Rightarrow>
     (case or_default feat
             (AbilityBonus_init (PyInt 0) (PyInt 0) (PyInt 0) (PyInt 0) (PyInt 0) (PyInt 0)
                (Member FEAT)) of
        Inl e \<Rightarrow> Inl e
      | Inr f \<Rightarrow>
     (case or_default level
             (AbilityBonus_init (PyInt 0) (PyInt 0) (PyInt 0) (PyInt 0) (PyInt 0) (PyInt 0)
                (Member LEVEL)) of
        Inl e \<Rightarrow> Inl e
      | Inr l \<Rightarrow>
          if bonus_type r \<noteq> RACIAL then Inl (ValueError RacialBonusMustHaveType)
          else if bonus_type f \<noteq> FEAT then Inl (ValueError FeatBonusMustHaveType)
          else if bonus_type l \<noteq> LEVEL then Inl (ValueError LevelBonusMustHaveType)
          else Inr \<lparr>base_abilities = base, racial_bonus = r, feat_bonus = f,
                    level_bonus = l\<rparr>)))"

text \<open>\<^verbatim>\<open>getattr(c, ability.field_name)\<close> and \<^verbatim>\<open>setattr(c, ability.field_name, v)\<close>.\<close>

fun getattr_field_name :: "'a AbilitySet_scheme \<Rightarrow> Ability \<Rightarrow> int" where
  "getattr_field_name c STRENGTH = strength c"
| "getattr_field_name c DEXTERITY = dexterity c"
| "getattr_field_name c CONSTITUTION = constitution c"
| "getattr_field_name c INTELLIGENCE = intelligence c"
| "getattr_field_name c WISDOM = wisdom c"
| "getattr_field_name c CHARISMA = charisma c"

fun setattr_field_name :: "'a AbilitySet_scheme \<Rightarrow> Ability \<Rightarrow> int \<Rightarrow> 'a AbilitySet_scheme" where
  "setattr_field_name c STRENGTH v = c\<lparr>strength := v\<rparr>"
| "setattr_field_name c DEXTERITY v = c\<lparr>dexterity := v\<rparr>"
| "setattr_field_name c CONSTITUTION v = c\<lparr>constitution := v\<rparr>"
| "setattr_field_name c INTELLIGENCE v = c\<lparr>intelligence := v\<rparr>"
| "setattr_field_name c WISDOM v = c\<lparr>wisdom := v\<rparr>"
| "setattr_field_name c CHARISMA v = c\<lparr>charisma := v\<rparr>"

definition total_score :: "CharacterStats \<Rightarrow> Ability \<Rightarrow> int" where
  "total_score self ability =
     sum_list (map (\<lambda>c. getattr_field_name c ability) (score_components self))"

definition modifier :: "CharacterStats \<Rightarrow> Ability \<Rightarrow> exn + int" where
  "modifier self ability = floor_truediv (total_score self ability - 10) 2"

text \<open>\<^verbatim>\<open>add_bonus\<close>, with \<^verbatim>\<open>increments\<close> again the list of the dictionary's items.\<close>

definition bonus_map :: "CharacterStats \<Rightarrow> BonusType \<rightharpoonup> AbilityBonus" where
  "bonus_map self =
     [RACIAL \<mapsto> racial_bonus self, FEAT \<mapsto> feat_bonus self, LEVEL \<mapsto> level_bonus self]"

text \<open>Writing through the reference \<^verbatim>\<open>target = bonus_map[bonus_type]\<close>.\<close>

fun store_bonus :: "CharacterStats \<Rightarrow> BonusType \<Rightarrow> AbilityBonus \<Rightarrow> CharacterStats" where
  "store_bonus self RACIAL t = self\<lparr>racial_bonus := t\<rparr>"
| "store_bonus self FEAT t = self\<lparr>feat_bonus := t\<rparr>"
| "store_bonus self LEVEL t = self\<lparr>level_bonus := t\<rparr>"

text \<open>The loop under \<^verbatim>\<open># Validate increments\<close>: both checks on an item, then the next.\<close>

fun validate_increments :: "CharacterStats \<Rightarrow> (Ability \<times> pyval) list \<Rightarrow> exn option" where
  "validate_increments self [] = None"
| "validate_increments self ((ability, amount) # rest) =
     (if \<not> isinstance_int amount \<or> int_of amount \<le> 0
      then Some (ValueError (BonusMustBePositiveInteger ability))
      else
        let new_total = total_score self ability + int_of amount
        in if new_total > MAX_SCORE
           then Some (ValueError (BonusWouldExceed ability new_total MAX_SCORE))
           else validate_increments self rest)"

text \<open>The loop under \<^verbatim>\<open># Apply increments\<close>.\<close>

fun apply_increments :: "AbilityBonus \<Rightarrow> (Ability \<times> pyval) list \<Rightarrow> AbilityBonus" where
  "apply_increments target [] = target"
| "apply_increments target ((ability, amount) # rest) =
     (let current_value = getattr_field_name target ability
      in apply_increments (setattr_field_name target ability (current_value + int_of amount)) rest)"

definition add_bonus ::
  "CharacterStats \<Rightarrow> BonusType arg \<Rightarrow> (Ability \<times> pyval) list \<Rightarrow> exn option \<times> CharacterStats" where
  "add_bonus self bt increments =
     (case bt of
        NonMember x \<Rightarrow> (Some (ValueError (InvalidBonusType bt)), self)
      | Member k \<Rightarrow>
     (case bonus_map self k of
        None \<Rightarrow> (Some (ValueError (InvalidBonusType bt)), self)
      | Some target \<Rightarrow>
     (case validate_increments self increments of
        Some e \<Rightarrow> (Some e, self)
      | None \<Rightarrow> (None, store_bonus self k (apply_increments target increments)))))"

section \<open>Notions used to state the properties\<close>

text \<open>
  \<^verbatim>\<open>isinstance(amount, int) and amount > 0\<close>: what both validation loops demand of
  an increment.
\<close>

definition positive_integer :: "pyval \<Rightarrow> bool" where
  "positive_integer x = (case as_int x of None \<Rightarrow> False | Some n \<Rightarrow> 0 < n)"

text \<open>
  The modifier property of the first file that belongs to an ability, as the dictionary
  \<^verbatim>\<open>ability_mod\<close> of \<^verbatim>\<open>get_save_throw_modifier\<close> in \<^verbatim>\<open>main.py\<close> selects it.
\<close>

fun ability_mod :: "AbilityScores \<Rightarrow> Ability \<Rightarrow> exn + int" where
  "ability_mod self STRENGTH = strength_mod self"
| "ability_mod self DEXTERITY = dexterity_mod self"
| "ability_mod self CONSTITUTION = constitution_mod self"
| "ability_mod self INTELLIGENCE = intelligence_mod self"
| "ability_mod self WISDOM = wisdom_mod self"
| "ability_mod self CHARISMA = charisma_mod self"

text \<open>
  A supplied bonus set fits a slot of \<^verbatim>\<open>CharacterStats\<close> when its tag is the slot's;
  an omitted one always does.
\<close>

definition tag_matches :: "AbilityBonus option \<Rightarrow> BonusType \<Rightarrow> bool" where
  "tag_matches b t = (case b of None \<Rightarrow> True | Some x \<Rightarrow> bonus_type x = t)"

text \<open>
  Comparing the two files: a layer of the first and a layer of the second hold the same
  field values, and so do two aggregates; the member of \<^verbatim>\<open>BonusType\<close> that stands
  for a member of \<^verbatim>\<open>ComponentScore\<close>.
\<close>

definition same_layer :: "CharacterAbility \<Rightarrow> 'a AbilitySet_scheme \<Rightarrow> bool" where
  "same_layer c d =
     (CharacterAbility.strength c = strength d \<and> CharacterAbility.dexterity c = dexterity d \<and>
      CharacterAbility.constitution c = constitution d \<and> CharacterAbility.wisdom c = wisdom d \<and>
      CharacterAbility.intelligence c = intelligence d \<and> CharacterAbility.charisma c = charisma d)"

definition same_fields :: "AbilityScores \<Rightarrow> CharacterStats \<Rightarrow> bool" where
  "same_fields x y =
     (same_layer (score_base x) (base_abilities y) \<and>
      same_layer (AbilityScores.racial_bonus x) (racial_bonus y) \<and>
      same_layer (AbilityScores.feat_bonus x) (feat_bonus y) \<and>
      same_layer (AbilityScores.level_bonus x) (level_bonus y))"

fun BonusType_of :: "ComponentScore \<Rightarrow> BonusType" where
  "BonusType_of RACIAL_BONUS = RACIAL"
| "BonusType_of FEAT_BONUS = FEAT"
| "BonusType_of LEVEL_BONUS = LEVEL"

fun bonus_arg :: "ComponentScore arg \<Rightarrow> BonusType arg" where
  "bonus_arg (Member k) = Member (BonusType_of k)"
| "bonus_arg (NonMember x) = NonMember x"

text \<open>
  The states the examples run on. \<open>fixture_stats\<close> is the aggregate the tests build
  from their fixtures \<^verbatim>\<open>base_abilities\<close> and \<^verbatim>\<open>racial_bonus\<close>; \<open>demo_scores\<close> is the
  one the first file builds under \<^verbatim>\<open>__main__\<close>.
\<close>

definition fixture_base :: BaseAbilities where
  "fixture_base =
     \<lparr>strength = 14, dexterity = 12, constitution = 10, wisdom = 8, intelligence = 16,
      charisma = 10\<rparr>"

definition fixture_racial :: AbilityBonus where
  "fixture_racial =
     \<lparr>strength = 2, dexterity = 0, constitution = 0, wisdom = 0, intelligence = 2,
      charisma = 0, bonus_type = RACIAL\<rparr>"

definition zero_bonus :: "BonusType \<Rightarrow> AbilityBonus" where
  "zero_bonus t =
     \<lparr>strength = 0, dexterity = 0, constitution = 0, wisdom = 0, intelligence = 0,
      charisma = 0, bonus_type = t\<rparr>"

definition fixture_stats :: CharacterStats where
  "fixture_stats =
     \<lparr>base_abilities = fixture_base, racial_bonus = fixture_racial,
      feat_bonus = zero_bonus FEAT, level_bonus = zero_bonus LEVEL\<rparr>"

definition zero_layer :: CharacterAbility where
  "zero_layer =
     \<lparr>CharacterAbility.strength = 0, dexterity = 0, constitution = 0, wisdom = 0,
      intelligence = 0, charisma = 0\<rparr>"

definition demo_scores :: AbilityScores where
  "demo_scores =
     \<lparr>score_base =
        \<lparr>CharacterAbility.strength = 16, dexterity = 13, constitution = 15, wisdom = 12,
         intelligence = 8, charisma = 10\<rparr>,
      racial_bonus =
        \<lparr>CharacterAbility.strength = 2, dexterity = 1, constitution = 0, wisdom = 0,
         intelligence = 0, charisma = 0\<rparr>,
      feat_bonus = zero_layer, level_bonus = zero_layer\<rparr>"

text \<open>
  A base set far above any score of the game, but a value its constructor accepts: the
  strength is \<open>2^53 + 13\<close>.
\<close>

definition huge_base :: BaseAbilities where
  "huge_base =
     \<lparr>strength = 9007199254741005, dexterity = 0, constitution = 0, wisdom = 0,
      intelligence = 0, charisma = 0\<rparr>"

definition huge_stats :: CharacterStats where
  "huge_stats =
     \<lparr>base_abilities = huge_base, racial_bonus = zero_bonus RACIAL,
      feat_bonus = zero_bonus FEAT, level_bonus = zero_bonus LEVEL\<rparr>"

text \<open>A base set with a strength of 25, above the cap, and the aggregates built on it.\<close>

definition base25 :: BaseAbilities where
  "base25 =
     \<lparr>strength = 25, dexterity = 10, constitution = 10, wisdom = 10, intelligence = 10,
      charisma = 10\<rparr>"

definition stats25 :: CharacterStats where
  "stats25 =
     \<lparr>base_abilities = base25, racial_bonus = zero_bonus RACIAL,
      feat_bonus = zero_bonus FEAT, level_bonus = zero_bonus LEVEL\<rparr>"

definition scores25 :: AbilityScores where
  "scores25 =
     \<lparr>score_base =
        \<lparr>CharacterAbility.strength = 25, dexterity = 10, constitution = 10, wisdom = 10,
         intelligence = 10, charisma = 10\<rparr>,
      racial_bonus = zero_layer, feat_bonus = zero_layer, level_bonus = zero_layer\<rparr>"

text \<open>The aggregate of the second file with the field values of \<open>demo_scores\<close>.\<close>

definition demo_stats :: CharacterStats where
  "demo_stats =
     \<lparr>base_abilities =
        \<lparr>strength = 16, dexterity = 13, constitution = 15, wisdom = 12, intelligence = 8,
         charisma = 10\<rparr>,
      racial_bonus =
        \<lparr>strength = 2, dexterity = 1, constitution = 0, wisdom = 0, intelligence = 0,
         charisma = 0, bonus_type = RACIAL\<rparr>,
      feat_bonus = zero_bonus FEAT, level_bonus = zero_bonus LEVEL\<rparr>"

section \<open>Basic facts\<close>

lemma int_of_as_int: "as_int v = Some n \<Longrightarrow> int_of v = n"
  by (cases v) auto

lemma positive_integer_iff: "positive_integer v \<longleftrightarrow> isinstance_int v \<and> 0 < int_of v"
  by (cases v) (auto simp: positive_integer_def isinstance_int_def)

lemma non_negative_integer_iff:
  "non_negative_integer v \<longleftrightarrow> isinstance_int v \<and> 0 \<le> int_of v"
  by (cases v) (auto simp: non_negative_integer_def isinstance_int_def)

lemma total_score_sum:
  "total_score self a =
     getattr_field_name (base_abilities self) a + getattr_field_name (racial_bonus self) a +
     getattr_field_name (feat_bonus self) a + getattr_field_name (level_bonus self) a"
  by (cases a) (simp_all add: total_score_def score_components_def AbilitySet.truncate_def)

lemma sum_scores_sum:
  "sum_scores self a =
     getattr_attr_name (score_base self) a +
     getattr_attr_name (AbilityScores.racial_bonus self) a +
     getattr_attr_name (AbilityScores.feat_bonus self) a +
     getattr_attr_name (AbilityScores.level_bonus self) a"
  by (simp add: sum_scores_def isinstance_CharacterAbility_def)

lemma getattr_setattr_field_name:
  "getattr_field_name (setattr_field_name c a v) b =
     (if a = b then v else getattr_field_name c b)"
  by (cases a; cases b) simp_all

lemma getattr_setattr_attr_name:
  "getattr_attr_name (setattr_attr_name c a v) b =
     (if a = b then v else getattr_attr_name c b)"
  by (cases a; cases b) simp_all

lemma bonus_type_setattr: "bonus_type (setattr_field_name c a v) = bonus_type c"
  by (cases a) simp_all

lemma bonus_type_apply_increments: "bonus_type (apply_increments t incs) = bonus_type t"
  by (induction t incs rule: apply_increments.induct) (simp_all add: bonus_type_setattr)

text \<open>What the third loop leaves in a field: the old value plus the amounts for it.\<close>

lemma getattr_apply_increments:
  "getattr_field_name (apply_increments t incs) a =
     getattr_field_name t a +
     sum_list (map (\<lambda>p. int_of (snd p)) (filter (\<lambda>p. fst p = a) incs))"
  by (induction t incs rule: apply_increments.induct)
     (simp_all add: getattr_setattr_field_name)

lemma getattr_add_increments:
  "getattr_attr_name (add_increments t incs) a =
     getattr_attr_name t a +
     sum_list (map (\<lambda>p. int_of (snd p)) (filter (\<lambda>p. fst p = a) incs))"
  by (induction t incs rule: add_increments.induct)
     (simp_all add: getattr_setattr_attr_name)

lemma bonus_map_Some:
  "bonus_map self k =
     Some (case k of RACIAL \<Rightarrow> racial_bonus self | FEAT \<Rightarrow> feat_bonus self
           | LEVEL \<Rightarrow> level_bonus self)"
  by (cases k) (simp_all add: bonus_map_def)

lemma component_map_Some:
  "component_map self k =
     Some (case k of RACIAL_BONUS \<Rightarrow> AbilityScores.racial_bonus self
           | FEAT_BONUS \<Rightarrow> AbilityScores.feat_bonus self
           | LEVEL_BONUS \<Rightarrow> AbilityScores.level_bonus self)"
  by (cases k) (simp_all add: component_map_def)

text \<open>When the validation loops let a batch through.\<close>

lemma validate_increments_None_iff:
  "validate_increments self incs = None \<longleftrightarrow>
     (\<forall>p \<in> set incs. positive_integer (snd p) \<and>
        total_score self (fst p) + int_of (snd p) \<le> MAX_SCORE)"
  by (induction self incs rule: validate_increments.induct)
     (auto simp: positive_integer_iff Let_def)

lemma check_amounts_None_iff:
  "check_amounts incs = None \<longleftrightarrow> (\<forall>p \<in> set incs. positive_integer (snd p))"
  by (induction incs rule: check_amounts.induct) (auto simp: positive_integer_iff)

lemma check_totals_None_iff:
  "check_totals self incs = None \<longleftrightarrow>
     (\<forall>p \<in> set incs. sum_scores self (fst p) + int_of (snd p) \<le> MAX_TOTAL)"
  by (induction self incs rule: check_totals.induct) (auto simp: Let_def)

text \<open>A call either fails and returns the object as it was, or passes both loops.\<close>

lemma add_bonus_cases:
  "(\<exists>e. add_bonus self bt incs = (Some e, self)) \<or>
   (\<exists>k. bt = Member k \<and> validate_increments self incs = None \<and>
        add_bonus self bt incs =
          (None, store_bonus self k (apply_increments (the (bonus_map self k)) incs)))"
  by (cases bt) (auto simp: add_bonus_def bonus_map_Some split: option.splits)

lemma increment_attribute_cases:
  "(\<exists>e. increment_attribute self c incs = (Some e, self)) \<or>
   (\<exists>k. c = Member k \<and> check_amounts incs = None \<and> check_totals self incs = None \<and>
        increment_attribute self c incs =
          (None, store_component self k (add_increments (the (component_map self k)) incs)))"
  by (cases c) (auto simp: increment_attribute_def component_map_Some split: option.splits)

section \<open>The true division by two is exact below \<open>2^53\<close>\<close>

lemma pow2_powi: "pow2 e = 2 powi e"
  by (simp add: pow2_def power_int_def inverse_eq_divide power_one_over)

lemma round_half_even_of_int: "round_half_even (of_int m) = m"
  by (simp add: round_half_even_def)

lemma bitlen_two: "bitlen 2 = 2"
  by code_simp

lemma int_truediv_rounded:
  assumes "b \<noteq> 0" and "a \<noteq> 0"
    and "pow2 (bitlen (abs a) - bitlen (abs b)) \<le> abs (of_int a / of_int b)"
    and "of_int (round_half_even (abs (of_int a / of_int b) /
            pow2 (max (bitlen (abs a) - bitlen (abs b)) (- 1022) - 52))) *
          pow2 (max (bitlen (abs a) - bitlen (abs b)) (- 1022) - 52) = r"
    and "\<not> pow2 1024 \<le> r"
  shows "int_truediv a b = Inr (if (a < 0) = (b < 0) then r else - r)"
  using assms by (simp add: int_truediv_def Let_def)

lemma int_truediv_2_exact:
  assumes "\<bar>x\<bar> < 2 ^ 53"
  shows "int_truediv x 2 = Inr (of_int x / 2)"
proof (cases "x = 0")
  case True
  then show ?thesis by (simp add: int_truediv_def)
next
  case False
  define n where "n = \<bar>x\<bar>"
  define k where "k = bitlen n"
  have n_pos: "0 < n" using False by (simp add: n_def)
  have bounds: "2 ^ nat (k - 1) \<le> n" "n < 2 ^ nat k"
    using bitlen_bounds [OF n_pos] by (simp_all add: k_def)
  have k_ge: "1 \<le> k"
    using n_pos bitlen_eq_zero_iff [of n] bitlen_nonneg [of n] by (simp add: k_def) 
  have "(2::int) ^ nat (k - 1) < 2 ^ 53"
    using bounds(1) assms by (simp add: n_def)
  then have "nat (k - 1) < 53"
    using power_less_imp_less_exp [of "2::int" "nat (k - 1)" 53] by linarith
  then have k_le: "k \<le> 53" by simp
  define q :: rat where "q = of_int n / 2"
  have q_abs: "abs (of_int x / of_int 2 :: rat) = q"
    by (simp add: q_def n_def)
  have "(2::rat) powi (k - 1) \<le> of_int n"
  proof -
    have "(2::rat) powi (k - 1) = of_int (2 ^ nat (k - 1))"
      using k_ge by (simp add: power_int_def)
    also have "\<dots> \<le> of_int n" using bounds(1) by (simp only: of_int_le_iff)
    finally show ?thesis .
  qed
  then have e_ok: "pow2 (k - 2) \<le> q"
    using k_ge by (simp add: pow2_powi q_def power_int_diff)
  have ulp: "pow2 (max (k - 2) (- 1022) - 52) = 1 / 2 ^ nat (54 - k)"
    using k_ge k_le by (simp add: pow2_def max_def)
  have scaled: "q / (1 / 2 ^ nat (54 - k)) = of_int (n * 2 ^ nat (53 - k))"
  proof -
    have "nat (54 - k) = Suc (nat (53 - k))" using k_le by simp
    then show ?thesis by (simp add: q_def)
  qed
  have r: "of_int (round_half_even (q / (1 / 2 ^ nat (54 - k)))) * (1 / 2 ^ nat (54 - k)) = q"
    unfolding scaled round_half_even_of_int
    using scaled by (simp add: field_simps)
  have q_small: "\<not> pow2 1024 \<le> q"
  proof -
    have "rat_of_int n < rat_of_int (2 ^ 53)"
      using assms unfolding n_def by (simp only: of_int_less_iff)
    moreover have "q \<le> rat_of_int n"
      using n_pos by (simp add: q_def)
    ultimately have "q < rat_of_int (2 ^ 53)" by simp
    then show ?thesis by (simp add: pow2_def)
  qed
  have sign: "(if (x < 0) = ((2::int) < 0) then q else - q) = of_int x / 2"
    by (simp add: q_def n_def)
  have "int_truediv x 2 = Inr (if (x < 0) = ((2::int) < 0) then q else - q)"
  proof (rule int_truediv_rounded)
    show "(2::int) \<noteq> 0" by simp
    show "x \<noteq> 0" by (rule False)
    show "pow2 (bitlen \<bar>x\<bar> - bitlen \<bar>2\<bar>) \<le> \<bar>rat_of_int x / rat_of_int 2\<bar>"
      unfolding q_abs using e_ok by (simp add: bitlen_two n_def [symmetric] k_def [symmetric])
    show "rat_of_int (round_half_even (\<bar>rat_of_int x / rat_of_int 2\<bar> /
            pow2 (max (bitlen \<bar>x\<bar> - bitlen \<bar>2\<bar>) (- 1022) - 52))) *
          pow2 (max (bitlen \<bar>x\<bar> - bitlen \<bar>2\<bar>) (- 1022) - 52) = q"
      unfolding q_abs using r ulp
      by (simp only: bitlen_two n_def [symmetric] k_def [symmetric] abs_numeral)
    show "\<not> pow2 1024 \<le> q" by (rule q_small)
  qed
  then show ?thesis by (simp only: sign)
qed

lemma floor_truediv_2_exact:
  assumes "\<bar>x\<bar> < 2 ^ 53"
  shows "floor_truediv x 2 = Inr (x div 2)"
proof -
  have "\<lfloor>(of_int x / 2 :: rat)\<rfloor> = x div 2"
    using floor_divide_of_int_eq [of x 2, where ?'a = rat] by simp
  then show ?thesis
    by (simp add: floor_truediv_def int_truediv_2_exact [OF assms] math_floor_def)
qed

section \<open>Failed calls\<close>

lemma failed_add_bonus:
  "fst (add_bonus self bt incs) \<noteq> None \<Longrightarrow> snd (add_bonus self bt incs) = self"
  using add_bonus_cases [of self bt incs] by auto

lemma failed_increment_attribute:
  "fst (increment_attribute self c incs) \<noteq> None \<Longrightarrow> snd (increment_attribute self c incs) = self"
  using increment_attribute_cases [of self c incs] by auto

lemma add_bonus_over_cap_fails:
  assumes "(a, v) \<in> set incs" and "as_int v = Some n" and "MAX_SCORE < total_score self a + n"
  shows "fst (add_bonus self bt incs) \<noteq> None"
proof -
  have "int_of v = n" using assms(2) by (rule int_of_as_int)
  then have "\<not> (positive_integer (snd (a, v)) \<and>
      total_score self (fst (a, v)) + int_of (snd (a, v)) \<le> MAX_SCORE)"
    using assms(3) by simp
  then have "validate_increments self incs \<noteq> None"
    unfolding validate_increments_None_iff using assms(1) by blast
  then show ?thesis
    using add_bonus_cases [of self bt incs] by auto
qed

lemma increment_attribute_over_cap_fails:
  assumes "(a, v) \<in> set incs" and "as_int v = Some n" and "MAX_TOTAL < sum_scores self a + n"
  shows "fst (increment_attribute self c incs) \<noteq> None"
proof -
  have "int_of v = n" using assms(2) by (rule int_of_as_int)
  then have "\<not> sum_scores self (fst (a, v)) + int_of (snd (a, v)) \<le> MAX_TOTAL"
    using assms(3) by simp
  then have "check_totals self incs \<noteq> None"
    unfolding check_totals_None_iff using assms(1) by blast
  then show ?thesis
    using increment_attribute_cases [of self c incs] by auto
qed

text \<open>
  Claim C1. Whenever \<^verbatim>\<open>add_bonus\<close> (second file) or \<^verbatim>\<open>increment_attribute\<close> (first
  file) raises, whatever the error, the aggregate after the call is the aggregate
  before it: the base set and the three bonus sets, every field of each. In particular a
  batch that contains an increment taking its ability over the cap fails as a whole, so
  that a valid increment in the same batch is not applied either.
\<close>

theorem failed_call_changes_nothing:
  "(fst (add_bonus self bt incs) \<noteq> None \<longrightarrow> snd (add_bonus self bt incs) = self) \<and>
   (fst (increment_attribute self1 c incs1) \<noteq> None \<longrightarrow>
      snd (increment_attribute self1 c incs1) = self1) \<and>
   ((a, v) \<in> set incs \<and> as_int v = Some n \<and> MAX_SCORE < total_score self a + n \<longrightarrow>
      fst (add_bonus self bt incs) \<noteq> None \<and> snd (add_bonus self bt incs) = self) \<and>
   ((a1, v1) \<in> set incs1 \<and> as_int v1 = Some n1 \<and> MAX_TOTAL < sum_scores self1 a1 + n1 \<longrightarrow>
      fst (increment_attribute self1 c incs1) \<noteq> None \<and>
      snd (increment_attribute self1 c incs1) = self1)"
  using failed_add_bonus [of self bt incs]
    failed_increment_attribute [of self1 c incs1]
    add_bonus_over_cap_fails [of a v incs n self bt]
    increment_attribute_over_cap_fails [of a1 v1 incs1 n1 self1 c]
  by blast

theorem failed_call_changes_nothing_witness:
  "(STRENGTH, PyInt 20) \<in> set [(DEXTERITY, PyInt 2), (STRENGTH, PyInt 20)] \<and>
   as_int (PyInt 20) = Some 20 \<and>
   MAX_SCORE < total_score fixture_stats STRENGTH + 20 \<and>
   MAX_TOTAL < sum_scores demo_scores STRENGTH + 20 \<and>
   fst (add_bonus fixture_stats (Member FEAT) [(DEXTERITY, PyInt 2), (STRENGTH, PyInt 20)]) \<noteq> None \<and>
   snd (add_bonus fixture_stats (Member FEAT) [(DEXTERITY, PyInt 2), (STRENGTH, PyInt 20)]) =
     fixture_stats \<and>
   fst (increment_attribute demo_scores (Member FEAT_BONUS)
          [(DEXTERITY, PyInt 2), (STRENGTH, PyInt 20)]) \<noteq> None \<and>
   snd (increment_attribute demo_scores (Member FEAT_BONUS)
          [(DEXTERITY, PyInt 2), (STRENGTH, PyInt 20)]) = demo_scores"
proof -
  have h1: "(STRENGTH, PyInt 20) \<in> set [(DEXTERITY, PyInt 2), (STRENGTH, PyInt 20)]" by simp
  have h2: "as_int (PyInt 20) = Some 20" by simp
  have h3: "MAX_SCORE < total_score fixture_stats STRENGTH + 20" by code_simp
  have h4: "MAX_TOTAL < sum_scores demo_scores STRENGTH + 20" by code_simp
  show ?thesis
    using h1 h2 h3 h4
      failed_call_changes_nothing [of fixture_stats "Member FEAT"
        "[(DEXTERITY, PyInt 2), (STRENGTH, PyInt 20)]" demo_scores "Member FEAT_BONUS"
        "[(DEXTERITY, PyInt 2), (STRENGTH, PyInt 20)]" STRENGTH "PyInt 20" 20 STRENGTH "PyInt 20" 20]
    by blast
qed

text \<open>
  Claim C7. A call of \<^verbatim>\<open>add_bonus\<close> or \<^verbatim>\<open>increment_attribute\<close> whose category
  argument is no member of the enumeration of the three bonus layers (there is no member
  for the base layer, so this is every attempt to address it) raises the error for an
  unknown category, and the aggregate is unchanged.
\<close>

theorem unknown_category_rejected:
  "add_bonus self (NonMember x) increments =
     (Some (ValueError (InvalidBonusType (NonMember x))), self) \<and>
   increment_attribute self1 (NonMember x1) increments1 =
     (Some (ValueError (InvalidComponent (NonMember x1))), self1)"
  by (simp add: add_bonus_def increment_attribute_def)

text \<open>
  Claim C3. \<^verbatim>\<open>total_score\<close> (\<^verbatim>\<open>_sum_scores\<close> in the first file) of an ability is the
  sum of that ability's field in the base set and in the racial, feat and level bonus
  sets, and nothing else; it is a function of the state, so it has no effect. This holds
  in every state, in particular in the state a call of \<^verbatim>\<open>add_bonus\<close> leaves, and a
  failed call leaves the value unchanged.
\<close>

theorem total_score_four_components:
  "total_score self a =
     getattr_field_name (base_abilities self) a + getattr_field_name (racial_bonus self) a +
     getattr_field_name (feat_bonus self) a + getattr_field_name (level_bonus self) a \<and>
   sum_scores self1 a =
     getattr_attr_name (score_base self1) a +
     getattr_attr_name (AbilityScores.racial_bonus self1) a +
     getattr_attr_name (AbilityScores.feat_bonus self1) a +
     getattr_attr_name (AbilityScores.level_bonus self1) a \<and>
   total_score (snd (add_bonus self bt incs)) a =
     getattr_field_name (base_abilities (snd (add_bonus self bt incs))) a +
     getattr_field_name (racial_bonus (snd (add_bonus self bt incs))) a +
     getattr_field_name (feat_bonus (snd (add_bonus self bt incs))) a +
     getattr_field_name (level_bonus (snd (add_bonus self bt incs))) a \<and>
   sum_scores (snd (increment_attribute self1 c incs1)) a =
     getattr_attr_name (score_base (snd (increment_attribute self1 c incs1))) a +
     getattr_attr_name (AbilityScores.racial_bonus (snd (increment_attribute self1 c incs1))) a +
     getattr_attr_name (AbilityScores.feat_bonus (snd (increment_attribute self1 c incs1))) a +
     getattr_attr_name (AbilityScores.level_bonus (snd (increment_attribute self1 c incs1))) a \<and>
   (fst (add_bonus self bt incs) \<noteq> None \<longrightarrow>
      total_score (snd (add_bonus self bt incs)) a = total_score self a) \<and>
   (fst (increment_attribute self1 c incs1) \<noteq> None \<longrightarrow>
      sum_scores (snd (increment_attribute self1 c incs1)) a = sum_scores self1 a)"
  using failed_add_bonus [of self bt incs]
    failed_increment_attribute [of self1 c incs1]
  by (simp add: total_score_sum sum_scores_sum)

theorem total_score_four_components_witness:
  "fst (add_bonus fixture_stats (Member FEAT) [(STRENGTH, PyInt 20)]) \<noteq> None \<and>
   total_score (snd (add_bonus fixture_stats (Member FEAT) [(STRENGTH, PyInt 20)])) STRENGTH =
     total_score fixture_stats STRENGTH \<and>
   total_score fixture_stats STRENGTH = 16 \<and>
   fst (increment_attribute demo_scores (Member FEAT_BONUS) [(STRENGTH, PyInt 14)]) \<noteq> None \<and>
   sum_scores (snd (increment_attribute demo_scores (Member FEAT_BONUS) [(STRENGTH, PyInt 14)]))
     STRENGTH = sum_scores demo_scores STRENGTH \<and>
   sum_scores demo_scores STRENGTH = 18"
proof -
  have h1: "fst (add_bonus fixture_stats (Member FEAT) [(STRENGTH, PyInt 20)]) \<noteq> None"
    by code_simp
  have h2: "fst (increment_attribute demo_scores (Member FEAT_BONUS) [(STRENGTH, PyInt 14)])
      \<noteq> None"
    by code_simp
  have h3: "total_score fixture_stats STRENGTH = 16" by code_simp
  have h4: "sum_scores demo_scores STRENGTH = 18" by code_simp
  show ?thesis
    using h1 h2 h3 h4
      total_score_four_components [of fixture_stats STRENGTH demo_scores "Member FEAT"
        "[(STRENGTH, PyInt 20)]" "Member FEAT_BONUS" "[(STRENGTH, PyInt 14)]"]
    by blast
qed

section \<open>The modifier\<close>

text \<open>
  As long as the total is within \<open>2^53\<close> of ten, which covers every total from 0 to
  the cap, the float quotient is exact and the modifier is the floor of half the
  difference, rounded towards minus infinity: 7 gives -2, 9 gives -1, 10 gives 0 and 20
  gives 5.
\<close>

lemma ability_mod_eq: "ability_mod self a = floor_truediv (sum_scores self a - 10) 2"
  by (cases a)
     (simp_all add: strength_mod_def dexterity_mod_def constitution_mod_def wisdom_mod_def
        intelligence_mod_def charisma_mod_def)

lemma modifier_exact:
  "\<bar>total_score self a - 10\<bar> < 2 ^ 53 \<Longrightarrow>
     modifier self a = Inr ((total_score self a - 10) div 2)"
  by (simp only: modifier_def floor_truediv_2_exact)

lemma ability_mod_exact:
  "\<bar>sum_scores self a - 10\<bar> < 2 ^ 53 \<Longrightarrow>
     ability_mod self a = Inr ((sum_scores self a - 10) div 2)"
  by (simp only: ability_mod_eq floor_truediv_2_exact)

lemma modifier_examples:
  "floor_truediv (7 - 10) 2 = Inr (- 2) \<and> floor_truediv (9 - 10) 2 = Inr (- 1) \<and>
   floor_truediv (10 - 10) 2 = Inr 0 \<and> floor_truediv (20 - 10) 2 = Inr 5"
  by (simp add: floor_truediv_2_exact)

text \<open>
  Claim C2. The modifier of an ability is \<open>floor ((total - 10) / 2)\<close> in every
  reachable state. The code computes the quotient as a float before it takes the floor,
  and the constructor of the base set accepts any non-negative integer: with a strength
  of \<open>2^53 + 13\<close> the quotient \<open>2^52 + 1.5\<close> is not a float, the division rounds it
  to \<open>2^52 + 2\<close>, and the modifier returned is one more than the floor.
\<close>

theorem modifier_of_huge_total:
  "BaseAbilities_init (PyInt 9007199254741005) (PyInt 0) (PyInt 0) (PyInt 0) (PyInt 0) (PyInt 0) =
     Inr huge_base \<and>
   CharacterStats_init huge_base None None None = Inr huge_stats \<and>
   total_score huge_stats STRENGTH = 9007199254741005 \<and>
   modifier huge_stats STRENGTH = Inr 4503599627370498 \<and>
   (total_score huge_stats STRENGTH - 10) div 2 = 4503599627370497"
  by code_simp

section \<open>Construction of the value sets\<close>

lemma set_Ability_members: "set Ability_members = UNIV"
proof -
  have "a \<in> set Ability_members" for a
    by (cases a) (simp_all add: Ability_members_def)
  then show ?thesis by auto
qed

lemma list_all_fields:
  "list_all P [s, d, c, w, i, ch] \<longleftrightarrow> (\<forall>a. P (dataclass_field s d c w i ch a))"
proof
  assume l: "list_all P [s, d, c, w, i, ch]"
  show "\<forall>a. P (dataclass_field s d c w i ch a)"
  proof
    fix a
    show "P (dataclass_field s d c w i ch a)"
      using l by (cases a) simp_all
  qed
next
  assume h: "\<forall>a. P (dataclass_field s d c w i ch a)"
  show "list_all P [s, d, c, w, i, ch]"
    using h [rule_format, of STRENGTH] h [rule_format, of DEXTERITY]
      h [rule_format, of CONSTITUTION] h [rule_format, of WISDOM]
      h [rule_format, of INTELLIGENCE] h [rule_format, of CHARISMA]
    by simp
qed

lemma AbilitySet_post_init_None_iff:
  "AbilitySet_post_init is_base self as = None \<longleftrightarrow>
     (\<forall>a \<in> set as. isinstance_int (self a) \<and> (is_base \<or> 0 \<le> int_of (self a)))"
  by (induction is_base self as rule: AbilitySet_post_init.induct) (auto simp: Let_def)

lemma AbilitySet_post_init_Some:
  "AbilitySet_post_init is_base self as = Some e \<Longrightarrow>
     (\<exists>a \<in> set as. e = ValueError (MustBeInteger a) \<and> \<not> isinstance_int (self a)) \<or>
     (\<exists>a \<in> set as. e = ValueError (CannotBeNegativeForBonuses a) \<and> \<not> is_base \<and>
        isinstance_int (self a) \<and> int_of (self a) < 0)"
  by (induction is_base self as rule: AbilitySet_post_init.induct)
     (auto simp: Let_def split: if_splits)

lemma AbilitySet_post_init_all_int:
  "\<forall>a \<in> set as. isinstance_int (self a) \<Longrightarrow> AbilitySet_post_init is_base self as = Some e \<Longrightarrow>
     (\<exists>a \<in> set as. e = ValueError (CannotBeNegativeForBonuses a) \<and> \<not> is_base \<and>
        int_of (self a) < 0)"
  using AbilitySet_post_init_Some [of is_base self as e] by auto

lemma base_non_negative_None_iff:
  "base_non_negative self as = None \<longleftrightarrow> (\<forall>a \<in> set as. 0 \<le> int_of (self a))"
  by (induction self as rule: base_non_negative.induct) auto

lemma base_non_negative_Some:
  "base_non_negative self as = Some e \<Longrightarrow>
     (\<exists>a \<in> set as. e = ValueError (BaseMustBeNonNegative a) \<and> int_of (self a) < 0)"
  by (induction self as rule: base_non_negative.induct) (auto split: if_splits)

text \<open>What the constructors of the second file return.\<close>

lemma BaseAbilities_init_ok:
  assumes "\<forall>a. non_negative_integer (dataclass_field s d c w i ch a)"
  shows "BaseAbilities_init s d c w i ch =
     Inr \<lparr>strength = int_of s, dexterity = int_of d, constitution = int_of c,
          wisdom = int_of w, intelligence = int_of i, charisma = int_of ch\<rparr>"
proof -
  have "AbilitySet_post_init True (dataclass_field s d c w i ch) Ability_members = None"
    using assms by (simp add: AbilitySet_post_init_None_iff non_negative_integer_iff)
  moreover have "base_non_negative (dataclass_field s d c w i ch) Ability_members = None"
    using assms by (simp add: base_non_negative_None_iff non_negative_integer_iff)
  ultimately show ?thesis
    by (simp add: BaseAbilities_init_def BaseAbilities_post_init_def)
qed

lemma BaseAbilities_init_not_int:
  assumes "\<not> isinstance_int (dataclass_field s d c w i ch b)"
  shows "\<exists>a. BaseAbilities_init s d c w i ch = Inl (ValueError (MustBeInteger a)) \<and>
     \<not> isinstance_int (dataclass_field s d c w i ch a)"
proof -
  have "AbilitySet_post_init True (dataclass_field s d c w i ch) Ability_members \<noteq> None"
    using assms by (auto simp: AbilitySet_post_init_None_iff set_Ability_members)
  then obtain e where e: "AbilitySet_post_init True (dataclass_field s d c w i ch) Ability_members = Some e"
    by auto
  from AbilitySet_post_init_Some [OF e]
  obtain a where "e = ValueError (MustBeInteger a)" "\<not> isinstance_int (dataclass_field s d c w i ch a)"
    by auto
  then show ?thesis
    using e by (auto simp: BaseAbilities_init_def BaseAbilities_post_init_def)
qed

lemma BaseAbilities_init_negative:
  assumes "\<forall>a. isinstance_int (dataclass_field s d c w i ch a)"
    and "int_of (dataclass_field s d c w i ch b) < 0"
  shows "\<exists>a. BaseAbilities_init s d c w i ch = Inl (ValueError (BaseMustBeNonNegative a)) \<and>
     int_of (dataclass_field s d c w i ch a) < 0"
proof -
  have ok: "AbilitySet_post_init True (dataclass_field s d c w i ch) Ability_members = None"
    using assms(1) by (simp add: AbilitySet_post_init_None_iff)
  have "base_non_negative (dataclass_field s d c w i ch) Ability_members \<noteq> None"
    using assms(2) by (auto simp: base_non_negative_None_iff set_Ability_members not_le intro: exI [of _ b])
  then obtain e where e: "base_non_negative (dataclass_field s d c w i ch) Ability_members = Some e"
    by auto
  from base_non_negative_Some [OF e]
  obtain a where "e = ValueError (BaseMustBeNonNegative a)" "int_of (dataclass_field s d c w i ch a) < 0"
    by auto
  then show ?thesis
    using e ok by (auto simp: BaseAbilities_init_def BaseAbilities_post_init_def)
qed

lemma AbilityBonus_init_ok:
  assumes "\<forall>a. non_negative_integer (dataclass_field s d c w i ch a)"
  shows "AbilityBonus_init s d c w i ch (Member t) =
     Inr \<lparr>strength = int_of s, dexterity = int_of d, constitution = int_of c,
          wisdom = int_of w, intelligence = int_of i, charisma = int_of ch, bonus_type = t\<rparr>"
proof -
  have "AbilitySet_post_init False (dataclass_field s d c w i ch) Ability_members = None"
    using assms by (simp add: AbilitySet_post_init_None_iff non_negative_integer_iff)
  then show ?thesis
    by (simp add: AbilityBonus_init_def AbilityBonus_post_init_def)
qed

lemma AbilityBonus_init_Inr:
  assumes "AbilityBonus_init s d c w i ch bt = Inr r"
  shows "(\<forall>a. non_negative_integer (dataclass_field s d c w i ch a)) \<and> (\<exists>t. bt = Member t)"
proof -
  have "AbilitySet_post_init False (dataclass_field s d c w i ch) Ability_members = None"
    using assms by (auto simp: AbilityBonus_init_def AbilityBonus_post_init_def split: option.splits)
  then have "\<forall>a. non_negative_integer (dataclass_field s d c w i ch a)"
    by (simp add: AbilitySet_post_init_None_iff non_negative_integer_iff set_Ability_members)
  moreover have "\<exists>t. bt = Member t"
    using assms by (cases bt) (auto simp: AbilityBonus_init_def AbilityBonus_post_init_def split: option.splits)
  ultimately show ?thesis by simp
qed

lemma AbilityBonus_init_negative:
  assumes "\<forall>a. isinstance_int (dataclass_field s d c w i ch a)"
    and "int_of (dataclass_field s d c w i ch b) < 0"
  shows "\<exists>a. AbilityBonus_init s d c w i ch bt = Inl (ValueError (CannotBeNegativeForBonuses a)) \<and>
     int_of (dataclass_field s d c w i ch a) < 0"
proof -
  have "AbilitySet_post_init False (dataclass_field s d c w i ch) Ability_members \<noteq> None"
    using assms(2) by (auto simp: AbilitySet_post_init_None_iff set_Ability_members not_le intro: exI [of _ b])
  then obtain e where e: "AbilitySet_post_init False (dataclass_field s d c w i ch) Ability_members = Some e"
    by auto
  from AbilitySet_post_init_all_int [OF _ e] assms(1)
  obtain a where "e = ValueError (CannotBeNegativeForBonuses a)" "int_of (dataclass_field s d c w i ch a) < 0"
    by auto
  then show ?thesis
    using e by (auto simp: AbilityBonus_init_def AbilityBonus_post_init_def)
qed

lemma non_negative_PyInt_fields:
  "(\<forall>a. non_negative_integer (dataclass_field (PyInt s) (PyInt d) (PyInt c) (PyInt w) (PyInt i) (PyInt ch) a))
     \<longleftrightarrow> 0 \<le> s \<and> 0 \<le> d \<and> 0 \<le> c \<and> 0 \<le> w \<and> 0 \<le> i \<and> 0 \<le> ch"
  using list_all_fields [of non_negative_integer "PyInt s" "PyInt d" "PyInt c" "PyInt w" "PyInt i" "PyInt ch"]
  by (simp add: non_negative_integer_def)

lemma ScoreBase_init_eq:
  "ScoreBase_init s d c w i ch =
     (if list_all non_negative_integer [s, d, c, w, i, ch]
      then Inr \<lparr>CharacterAbility.strength = int_of s, dexterity = int_of d,
                constitution = int_of c, wisdom = int_of w, intelligence = int_of i,
                charisma = int_of ch\<rparr>
      else Inl (ValueError AllAttributesNonNegativeIntegers))"
  by (simp add: ScoreBase_init_def CharacterAbility_init_def)

lemma non_int_not_non_negative:
  "\<not> list_all isinstance_int xs \<Longrightarrow> \<not> list_all non_negative_integer xs"
  by (auto simp: list_all_iff non_negative_integer_iff)

text \<open>
  Claim C8. For non-negative integers s, d, c, w, i, ch the base set is constructed
  (\<^verbatim>\<open>BaseAbilities\<close> in the second file, \<^verbatim>\<open>ScoreBase\<close> in the first) and reading each
  field back by its ability gives the integer supplied. When one of the integers is
  negative the construction fails with the error for a negative base score, and when an
  argument is not an integer it fails with the error for a non-integer value. The first
  file has one message for both failures, "All attributes must be non-negative
  integers"; the second file names the ability, and reports a non-integer before it
  reports a negative value.
\<close>

theorem base_construction_round_trip:
  "(0 \<le> s \<and> 0 \<le> d \<and> 0 \<le> c \<and> 0 \<le> w \<and> 0 \<le> i \<and> 0 \<le> ch \<longrightarrow>
      (\<exists>r. BaseAbilities_init (PyInt s) (PyInt d) (PyInt c) (PyInt w) (PyInt i) (PyInt ch) = Inr r \<and>
           getattr_field_name r STRENGTH = s \<and> getattr_field_name r DEXTERITY = d \<and>
           getattr_field_name r CONSTITUTION = c \<and> getattr_field_name r WISDOM = w \<and>
           getattr_field_name r INTELLIGENCE = i \<and> getattr_field_name r CHARISMA = ch) \<and>
      (\<exists>r. ScoreBase_init (PyInt s) (PyInt d) (PyInt c) (PyInt w) (PyInt i) (PyInt ch) = Inr r \<and>
           getattr_attr_name r STRENGTH = s \<and> getattr_attr_name r DEXTERITY = d \<and>
           getattr_attr_name r CONSTITUTION = c \<and> getattr_attr_name r WISDOM = w \<and>
           getattr_attr_name r INTELLIGENCE = i \<and> getattr_attr_name r CHARISMA = ch)) \<and>
   (\<not> (0 \<le> s \<and> 0 \<le> d \<and> 0 \<le> c \<and> 0 \<le> w \<and> 0 \<le> i \<and> 0 \<le> ch) \<longrightarrow>
      (\<exists>a. BaseAbilities_init (PyInt s) (PyInt d) (PyInt c) (PyInt w) (PyInt i) (PyInt ch) =
           Inl (ValueError (BaseMustBeNonNegative a))) \<and>
      ScoreBase_init (PyInt s) (PyInt d) (PyInt c) (PyInt w) (PyInt i) (PyInt ch) =
        Inl (ValueError AllAttributesNonNegativeIntegers)) \<and>
   (\<not> list_all isinstance_int [x1, x2, x3, x4, x5, x6] \<longrightarrow>
      (\<exists>a. BaseAbilities_init x1 x2 x3 x4 x5 x6 = Inl (ValueError (MustBeInteger a))) \<and>
      ScoreBase_init x1 x2 x3 x4 x5 x6 = Inl (ValueError AllAttributesNonNegativeIntegers))"
proof (intro conjI impI)
  assume nn: "0 \<le> s \<and> 0 \<le> d \<and> 0 \<le> c \<and> 0 \<le> w \<and> 0 \<le> i \<and> 0 \<le> ch"
  then have f: "\<forall>a. non_negative_integer
      (dataclass_field (PyInt s) (PyInt d) (PyInt c) (PyInt w) (PyInt i) (PyInt ch) a)"
    by (simp only: non_negative_PyInt_fields)
  show "\<exists>r. BaseAbilities_init (PyInt s) (PyInt d) (PyInt c) (PyInt w) (PyInt i) (PyInt ch) = Inr r \<and>
           getattr_field_name r STRENGTH = s \<and> getattr_field_name r DEXTERITY = d \<and>
           getattr_field_name r CONSTITUTION = c \<and> getattr_field_name r WISDOM = w \<and>
           getattr_field_name r INTELLIGENCE = i \<and> getattr_field_name r CHARISMA = ch"
    by (simp add: BaseAbilities_init_ok [OF f])
  show "\<exists>r. ScoreBase_init (PyInt s) (PyInt d) (PyInt c) (PyInt w) (PyInt i) (PyInt ch) = Inr r \<and>
           getattr_attr_name r STRENGTH = s \<and> getattr_attr_name r DEXTERITY = d \<and>
           getattr_attr_name r CONSTITUTION = c \<and> getattr_attr_name r WISDOM = w \<and>
           getattr_attr_name r INTELLIGENCE = i \<and> getattr_attr_name r CHARISMA = ch"
    using nn by (simp add: ScoreBase_init_eq non_negative_integer_def)
next
  assume neg: "\<not> (0 \<le> s \<and> 0 \<le> d \<and> 0 \<le> c \<and> 0 \<le> w \<and> 0 \<le> i \<and> 0 \<le> ch)"
  let ?f = "dataclass_field (PyInt s) (PyInt d) (PyInt c) (PyInt w) (PyInt i) (PyInt ch)"
  have ints: "\<forall>a. isinstance_int (?f a)"
    using list_all_fields [of isinstance_int "PyInt s" "PyInt d" "PyInt c" "PyInt w" "PyInt i" "PyInt ch"]
    by (simp add: isinstance_int_def)
  from neg obtain b where "\<not> non_negative_integer (?f b)"
    using non_negative_PyInt_fields [of s d c w i ch] by blast
  then have "int_of (?f b) < 0"
    using ints by (simp add: non_negative_integer_iff)
  from BaseAbilities_init_negative [OF ints this]
  show "\<exists>a. BaseAbilities_init (PyInt s) (PyInt d) (PyInt c) (PyInt w) (PyInt i) (PyInt ch) =
           Inl (ValueError (BaseMustBeNonNegative a))"
    by blast
  show "ScoreBase_init (PyInt s) (PyInt d) (PyInt c) (PyInt w) (PyInt i) (PyInt ch) =
        Inl (ValueError AllAttributesNonNegativeIntegers)"
    using neg by (auto simp add: ScoreBase_init_eq non_negative_integer_def)
next
  assume ni: "\<not> list_all isinstance_int [x1, x2, x3, x4, x5, x6]"
  then obtain b where "\<not> isinstance_int (dataclass_field x1 x2 x3 x4 x5 x6 b)"
    using list_all_fields [of isinstance_int x1 x2 x3 x4 x5 x6] by blast
  from BaseAbilities_init_not_int [OF this]
  show "\<exists>a. BaseAbilities_init x1 x2 x3 x4 x5 x6 = Inl (ValueError (MustBeInteger a))"
    by blast
  show "ScoreBase_init x1 x2 x3 x4 x5 x6 = Inl (ValueError AllAttributesNonNegativeIntegers)"
    using non_int_not_non_negative [OF ni] by (simp only: ScoreBase_init_eq if_False)
qed

theorem base_construction_round_trip_witness:
  "(0::int) \<le> 14 \<and> (0::int) \<le> 12 \<and> (0::int) \<le> 10 \<and> (0::int) \<le> 8 \<and> (0::int) \<le> 16 \<and>
   (\<exists>r. BaseAbilities_init (PyInt 14) (PyInt 12) (PyInt 10) (PyInt 8) (PyInt 16) (PyInt 10) = Inr r \<and>
        getattr_field_name r STRENGTH = 14 \<and> getattr_field_name r DEXTERITY = 12 \<and>
        getattr_field_name r CONSTITUTION = 10 \<and> getattr_field_name r WISDOM = 8 \<and>
        getattr_field_name r INTELLIGENCE = 16 \<and> getattr_field_name r CHARISMA = 10) \<and>
   \<not> (0 \<le> (- 1 :: int) \<and> (0::int) \<le> 10) \<and>
   (\<exists>a. BaseAbilities_init (PyInt (- 1)) (PyInt 10) (PyInt 10) (PyInt 10) (PyInt 10) (PyInt 10) =
        Inl (ValueError (BaseMustBeNonNegative a))) \<and>
   ScoreBase_init (PyInt (- 1)) (PyInt 10) (PyInt 10) (PyInt 10) (PyInt 10) (PyInt 10) =
     Inl (ValueError AllAttributesNonNegativeIntegers) \<and>
   \<not> list_all isinstance_int [PyInt 10, PyInt 10, PyStr ''invalid'', PyInt 10, PyInt 10, PyInt 10] \<and>
   (\<exists>a. BaseAbilities_init (PyInt 10) (PyInt 10) (PyStr ''invalid'') (PyInt 10) (PyInt 10) (PyInt 10) =
        Inl (ValueError (MustBeInteger a))) \<and>
   ScoreBase_init (PyInt 10) (PyInt 10) (PyStr ''invalid'') (PyInt 10) (PyInt 10) (PyInt 10) =
     Inl (ValueError AllAttributesNonNegativeIntegers)"
proof -
  have h: "\<not> list_all isinstance_int
      [PyInt 10, PyInt 10, PyStr ''invalid'', PyInt 10, PyInt 10, PyInt 10]"
    by (simp add: isinstance_int_def)
  show ?thesis
    using h
      base_construction_round_trip [of 14 12 10 8 16 10]
      base_construction_round_trip [of "- 1" 10 10 10 10 10 "PyInt 10" "PyInt 10"
        "PyStr ''invalid''" "PyInt 10" "PyInt 10" "PyInt 10"]
    by simp
qed

lemma v1_bonus_init_eq:
  "RacialBonus_init s d c w i ch =
     (if list_all isinstance_int [s, d, c, w, i, ch]
      then Inr (CharacterAbility_init s d c w i ch)
      else Inl (ValueError AllRacialBonusesIntegers))"
  "FeatBonus_init s d c w i ch =
     (if list_all isinstance_int [s, d, c, w, i, ch]
      then Inr (CharacterAbility_init s d c w i ch)
      else Inl (ValueError AllFeatBonusesIntegers))"
  "LevelBonus_init s d c w i ch =
     (if list_all isinstance_int [s, d, c, w, i, ch]
      then Inr (CharacterAbility_init s d c w i ch)
      else Inl (ValueError AllLevelBonusesIntegers))"
  by (simp_all add: RacialBonus_init_def FeatBonus_init_def LevelBonus_init_def)

lemma AbilityBonus_init_Inr_iff:
  "(\<exists>r. AbilityBonus_init x1 x2 x3 x4 x5 x6 bt = Inr r) \<longleftrightarrow>
     list_all non_negative_integer [x1, x2, x3, x4, x5, x6] \<and> (\<exists>t. bt = Member t)"
proof
  assume "\<exists>r. AbilityBonus_init x1 x2 x3 x4 x5 x6 bt = Inr r"
  then obtain r where "AbilityBonus_init x1 x2 x3 x4 x5 x6 bt = Inr r" ..
  from AbilityBonus_init_Inr [OF this]
  show "list_all non_negative_integer [x1, x2, x3, x4, x5, x6] \<and> (\<exists>t. bt = Member t)"
    using list_all_fields [of non_negative_integer x1 x2 x3 x4 x5 x6] by blast
next
  assume h: "list_all non_negative_integer [x1, x2, x3, x4, x5, x6] \<and> (\<exists>t. bt = Member t)"
  then obtain t where t: "bt = Member t" by blast
  from h have "\<forall>a. non_negative_integer (dataclass_field x1 x2 x3 x4 x5 x6 a)"
    using list_all_fields [of non_negative_integer x1 x2 x3 x4 x5 x6] by blast
  from AbilityBonus_init_ok [OF this, of t]
  show "\<exists>r. AbilityBonus_init x1 x2 x3 x4 x5 x6 bt = Inr r"
    unfolding t by blast
qed

text \<open>
  Claim C4. The construction of a bonus set fails with the error for a negative bonus
  value when one of the six fields is a negative integer, and succeeds only when every
  field is a non-negative integer. This holds of \<^verbatim>\<open>AbilityBonus\<close> in the second file,
  but not of \<^verbatim>\<open>RacialBonus\<close>, \<^verbatim>\<open>FeatBonus\<close> and \<^verbatim>\<open>LevelBonus\<close> in the first, whose
  constructors only check that the fields are integers: a racial bonus with strength -1
  is constructed.
\<close>

theorem first_file_accepts_negative_bonus:
  "RacialBonus_init (PyInt (- 1)) (PyInt 0) (PyInt 0) (PyInt 0) (PyInt 0) (PyInt 0) =
     Inr \<lparr>CharacterAbility.strength = - 1, dexterity = 0, constitution = 0, wisdom = 0,
          intelligence = 0, charisma = 0\<rparr>"
  by (simp add: RacialBonus_init_def CharacterAbility_init_def isinstance_int_def)

text \<open>
  Claim C4, as amended. In the second file the construction of an \<^verbatim>\<open>AbilityBonus\<close>
  succeeds exactly when every field is a non-negative integer and the bonus type is a
  member of \<^verbatim>\<open>BonusType\<close>, and it fails with the error for a negative bonus value when
  all six fields are integers and one of them is negative. In the first file the
  construction of a \<^verbatim>\<open>RacialBonus\<close>, \<^verbatim>\<open>FeatBonus\<close> or \<^verbatim>\<open>LevelBonus\<close> succeeds exactly
  when every field is an integer, negative ones included.
\<close>

theorem bonus_construction_rejects_negative_in_second_file:
  "((\<exists>r. AbilityBonus_init x1 x2 x3 x4 x5 x6 bt = Inr r) \<longleftrightarrow>
      list_all non_negative_integer [x1, x2, x3, x4, x5, x6] \<and> (\<exists>t. bt = Member t)) \<and>
   (list_all isinstance_int [x1, x2, x3, x4, x5, x6] \<and>
    \<not> list_all non_negative_integer [x1, x2, x3, x4, x5, x6] \<longrightarrow>
      (\<exists>a. AbilityBonus_init x1 x2 x3 x4 x5 x6 bt =
           Inl (ValueError (CannotBeNegativeForBonuses a)))) \<and>
   ((\<exists>r. RacialBonus_init x1 x2 x3 x4 x5 x6 = Inr r) \<longleftrightarrow>
      list_all isinstance_int [x1, x2, x3, x4, x5, x6]) \<and>
   ((\<exists>r. FeatBonus_init x1 x2 x3 x4 x5 x6 = Inr r) \<longleftrightarrow>
      list_all isinstance_int [x1, x2, x3, x4, x5, x6]) \<and>
   ((\<exists>r. LevelBonus_init x1 x2 x3 x4 x5 x6 = Inr r) \<longleftrightarrow>
      list_all isinstance_int [x1, x2, x3, x4, x5, x6])"
proof (intro conjI impI)
  show "(\<exists>r. AbilityBonus_init x1 x2 x3 x4 x5 x6 bt = Inr r) \<longleftrightarrow>
      list_all non_negative_integer [x1, x2, x3, x4, x5, x6] \<and> (\<exists>t. bt = Member t)"
    by (rule AbilityBonus_init_Inr_iff)
next
  assume h: "list_all isinstance_int [x1, x2, x3, x4, x5, x6] \<and>
    \<not> list_all non_negative_integer [x1, x2, x3, x4, x5, x6]"
  let ?f = "dataclass_field x1 x2 x3 x4 x5 x6"
  from h have ints: "\<forall>a. isinstance_int (?f a)"
    using list_all_fields [of isinstance_int x1 x2 x3 x4 x5 x6] by blast
  from h obtain b where "\<not> non_negative_integer (?f b)"
    using list_all_fields [of non_negative_integer x1 x2 x3 x4 x5 x6] by blast
  then have "int_of (?f b) < 0"
    using ints by (simp add: non_negative_integer_iff)
  from AbilityBonus_init_negative [OF ints this]
  show "\<exists>a. AbilityBonus_init x1 x2 x3 x4 x5 x6 bt =
           Inl (ValueError (CannotBeNegativeForBonuses a))"
    by blast
qed (simp_all add: v1_bonus_init_eq)

theorem bonus_construction_rejects_negative_in_second_file_witness:
  "list_all isinstance_int [PyInt (- 1), PyInt 0, PyInt 0, PyInt 0, PyInt 0, PyInt 0] \<and>
   \<not> list_all non_negative_integer [PyInt (- 1), PyInt 0, PyInt 0, PyInt 0, PyInt 0, PyInt 0] \<and>
   (\<exists>a. AbilityBonus_init (PyInt (- 1)) (PyInt 0) (PyInt 0) (PyInt 0) (PyInt 0) (PyInt 0)
          (Member RACIAL) = Inl (ValueError (CannotBeNegativeForBonuses a)))"
proof -
  have h1: "list_all isinstance_int [PyInt (- 1), PyInt 0, PyInt 0, PyInt 0, PyInt 0, PyInt 0]"
    by (simp add: isinstance_int_def)
  have h2: "\<not> list_all non_negative_integer
      [PyInt (- 1), PyInt 0, PyInt 0, PyInt 0, PyInt 0, PyInt 0]"
    by (simp add: non_negative_integer_def)
  show ?thesis
    using h1 h2
      bonus_construction_rejects_negative_in_second_file [of "PyInt (- 1)" "PyInt 0" "PyInt 0"
        "PyInt 0" "PyInt 0" "PyInt 0" "Member RACIAL"]
    by blast
qed

section \<open>Construction of the aggregate\<close>

text \<open>An omitted bonus set is replaced by the all-zero set with the tag of its slot.\<close>

lemma default_bonus:
  "AbilityBonus_init (PyInt 0) (PyInt 0) (PyInt 0) (PyInt 0) (PyInt 0) (PyInt 0) (Member t) =
     Inr (zero_bonus t)"
proof -
  have "\<forall>a. non_negative_integer
      (dataclass_field (PyInt 0) (PyInt 0) (PyInt 0) (PyInt 0) (PyInt 0) (PyInt 0) a)"
    by (simp add: non_negative_PyInt_fields)
  from AbilityBonus_init_ok [OF this] show ?thesis
    by (simp add: zero_bonus_def)
qed

lemma CharacterStats_init_eq:
  "CharacterStats_init base racial feat level =
     (if \<not> tag_matches racial RACIAL then Inl (ValueError RacialBonusMustHaveType)
      else if \<not> tag_matches feat FEAT then Inl (ValueError FeatBonusMustHaveType)
      else if \<not> tag_matches level LEVEL then Inl (ValueError LevelBonusMustHaveType)
      else Inr \<lparr>base_abilities = base,
                racial_bonus = (case racial of None \<Rightarrow> zero_bonus RACIAL | Some r \<Rightarrow> r),
                feat_bonus = (case feat of None \<Rightarrow> zero_bonus FEAT | Some f \<Rightarrow> f),
                level_bonus = (case level of None \<Rightarrow> zero_bonus LEVEL | Some l \<Rightarrow> l)\<rparr>)"
  by (cases racial; cases feat; cases level)
     (simp_all add: CharacterStats_init_def or_default_def default_bonus tag_matches_def
        zero_bonus_def)

lemma default_layers:
  "RacialBonus_init (PyInt 0) (PyInt 0) (PyInt 0) (PyInt 0) (PyInt 0) (PyInt 0) = Inr zero_layer"
  "FeatBonus_init (PyInt 0) (PyInt 0) (PyInt 0) (PyInt 0) (PyInt 0) (PyInt 0) = Inr zero_layer"
  "LevelBonus_init (PyInt 0) (PyInt 0) (PyInt 0) (PyInt 0) (PyInt 0) (PyInt 0) = Inr zero_layer"
  by (simp_all add: RacialBonus_init_def FeatBonus_init_def LevelBonus_init_def
      isinstance_int_def CharacterAbility_init_def zero_layer_def)

lemma AbilityScores_init_eq:
  "AbilityScores_init base racial feat level =
     Inr \<lparr>score_base = base,
          racial_bonus = (case racial of None \<Rightarrow> zero_layer | Some r \<Rightarrow> r),
          feat_bonus = (case feat of None \<Rightarrow> zero_layer | Some f \<Rightarrow> f),
          level_bonus = (case level of None \<Rightarrow> zero_layer | Some l \<Rightarrow> l)\<rparr>"
  by (cases racial; cases feat; cases level)
     (simp_all add: AbilityScores_init_def or_default_def default_layers)

text \<open>
  Claim C6. When a bonus set supplied to the constructor of the aggregate
  (\<^verbatim>\<open>CharacterStats\<close> in the second file, \<^verbatim>\<open>AbilityScores\<close> in the first) carries a
  category other than that of the slot it is passed for, the construction fails with the
  error for a mismatched category. The second file does so. The first file has no tag:
  the category of a set is its class, and \<^verbatim>\<open>AbilityScores.__init__\<close> never looks at it.
  An object built by \<^verbatim>\<open>FeatBonus\<close> and passed as \<^verbatim>\<open>racial\<close> is stored in the racial
  slot and the aggregate is constructed.
\<close>

theorem first_file_accepts_feat_bonus_as_racial:
  "new_object FeatBonus (PyInt 1) (PyInt 0) (PyInt 0) (PyInt 0) (PyInt 0) (PyInt 0) =
     Inr (FeatBonus,
          \<lparr>CharacterAbility.strength = 1, dexterity = 0, constitution = 0, wisdom = 0,
           intelligence = 0, charisma = 0\<rparr>) \<and>
   new_object ScoreBase (PyInt 16) (PyInt 13) (PyInt 15) (PyInt 12) (PyInt 8) (PyInt 10) =
     Inr (ScoreBase, score_base demo_scores) \<and>
   AbilityScores_call (ScoreBase, score_base demo_scores)
       (Some (FeatBonus,
              \<lparr>CharacterAbility.strength = 1, dexterity = 0, constitution = 0, wisdom = 0,
               intelligence = 0, charisma = 0\<rparr>)) None None =
     Inr \<lparr>score_base = score_base demo_scores,
          racial_bonus =
            \<lparr>CharacterAbility.strength = 1, dexterity = 0, constitution = 0, wisdom = 0,
             intelligence = 0, charisma = 0\<rparr>,
          feat_bonus = zero_layer, level_bonus = zero_layer\<rparr>"
  by code_simp

text \<open>
  Claim C6, as amended. In the second file, when a bonus set supplied to the constructor
  of \<^verbatim>\<open>CharacterStats\<close> carries a tag other than that of the slot it is passed for (a
  set tagged \<^verbatim>\<open>FEAT\<close> passed as \<^verbatim>\<open>racial\<close>, say), the construction fails with the
  error for a mismatched category, that of the first mismatched slot in the order
  racial, feat, level, and no object is returned. When every supplied tag matches, the
  construction succeeds, the sets are stored as supplied (the all-zero set for an
  omitted one), and each stored bonus set carries the tag of its slot. In the first
  file the construction of \<^verbatim>\<open>AbilityScores\<close> makes no such check and always succeeds:
  it stores the objects it is given, of whatever class, and the all-zero set for an
  omitted one.
\<close>

theorem mismatched_tag_rejected_by_second_file_only:
  "(\<not> tag_matches racial RACIAL \<longrightarrow>
      CharacterStats_init base racial feat level = Inl (ValueError RacialBonusMustHaveType)) \<and>
   (tag_matches racial RACIAL \<and> \<not> tag_matches feat FEAT \<longrightarrow>
      CharacterStats_init base racial feat level = Inl (ValueError FeatBonusMustHaveType)) \<and>
   (tag_matches racial RACIAL \<and> tag_matches feat FEAT \<and> \<not> tag_matches level LEVEL \<longrightarrow>
      CharacterStats_init base racial feat level = Inl (ValueError LevelBonusMustHaveType)) \<and>
   (tag_matches racial RACIAL \<and> tag_matches feat FEAT \<and> tag_matches level LEVEL \<longrightarrow>
      (\<exists>s. CharacterStats_init base racial feat level = Inr s \<and> base_abilities s = base \<and>
           bonus_type (racial_bonus s) = RACIAL \<and> bonus_type (feat_bonus s) = FEAT \<and>
           bonus_type (level_bonus s) = LEVEL \<and>
           racial_bonus s = (case racial of None \<Rightarrow> zero_bonus RACIAL | Some r \<Rightarrow> r) \<and>
           feat_bonus s = (case feat of None \<Rightarrow> zero_bonus FEAT | Some f \<Rightarrow> f) \<and>
           level_bonus s = (case level of None \<Rightarrow> zero_bonus LEVEL | Some l \<Rightarrow> l))) \<and>
   AbilityScores_call base1 racial1 feat1 level1 =
     Inr \<lparr>score_base = snd base1,
          racial_bonus = (case racial1 of None \<Rightarrow> zero_layer | Some r \<Rightarrow> snd r),
          feat_bonus = (case feat1 of None \<Rightarrow> zero_layer | Some f \<Rightarrow> snd f),
          level_bonus = (case level1 of None \<Rightarrow> zero_layer | Some l \<Rightarrow> snd l)\<rparr>"
proof -
  have "AbilityScores_call base1 racial1 feat1 level1 =
     Inr \<lparr>score_base = snd base1,
          racial_bonus = (case racial1 of None \<Rightarrow> zero_layer | Some r \<Rightarrow> snd r),
          feat_bonus = (case feat1 of None \<Rightarrow> zero_layer | Some f \<Rightarrow> snd f),
          level_bonus = (case level1 of None \<Rightarrow> zero_layer | Some l \<Rightarrow> snd l)\<rparr>"
    by (cases racial1; cases feat1; cases level1)
       (simp_all add: AbilityScores_call_def AbilityScores_init_eq)
  then show ?thesis
    by (auto simp: CharacterStats_init_eq tag_matches_def zero_bonus_def split: option.splits)
qed

theorem mismatched_tag_rejected_by_second_file_only_witness:
  "\<not> tag_matches (Some (zero_bonus FEAT)) RACIAL \<and>
   CharacterStats_init fixture_base (Some (zero_bonus FEAT)) None None =
     Inl (ValueError RacialBonusMustHaveType) \<and>
   tag_matches (Some fixture_racial) RACIAL \<and> tag_matches None FEAT \<and> tag_matches None LEVEL \<and>
   (\<exists>s. CharacterStats_init fixture_base (Some fixture_racial) None None = Inr s \<and>
        bonus_type (racial_bonus s) = RACIAL \<and> bonus_type (feat_bonus s) = FEAT \<and>
        bonus_type (level_bonus s) = LEVEL)"
proof -
  have h1: "\<not> tag_matches (Some (zero_bonus FEAT)) RACIAL"
    by (simp add: tag_matches_def zero_bonus_def)
  have h2: "tag_matches (Some fixture_racial) RACIAL \<and> tag_matches None FEAT \<and>
      tag_matches None LEVEL"
    by (simp add: tag_matches_def fixture_racial_def)
  show ?thesis
    using h1 h2
      mismatched_tag_rejected_by_second_file_only [of "Some (zero_bonus FEAT)" fixture_base
        None None]
      mismatched_tag_rejected_by_second_file_only [of "Some fixture_racial" fixture_base
        None None]
    by blast
qed

section \<open>The cap\<close>

text \<open>A successful call adds positive amounts only, so no total ever decreases.\<close>

lemma sum_positive_amounts:
  "\<forall>p \<in> set incs. positive_integer (snd p) \<Longrightarrow>
     0 \<le> sum_list (map (\<lambda>p. int_of (snd p)) (filter (\<lambda>p. fst p = a) incs))"
  by (induction incs) (auto simp: positive_integer_iff)

lemma total_score_store_bonus:
  "bonus_map self k = Some t \<Longrightarrow>
     total_score (store_bonus self k t') a =
       total_score self a + getattr_field_name t' a - getattr_field_name t a"
  by (cases k) (auto simp: total_score_sum bonus_map_def)

lemma sum_scores_store_component:
  "component_map self k = Some t \<Longrightarrow>
     sum_scores (store_component self k t') a =
       sum_scores self a + getattr_attr_name t' a - getattr_attr_name t a"
  by (cases k) (auto simp: sum_scores_sum component_map_def)

lemma add_bonus_total_mono:
  "total_score self a \<le> total_score (snd (add_bonus self bt incs)) a"
proof -
  from add_bonus_cases [of self bt incs] show ?thesis
  proof
    assume "\<exists>e. add_bonus self bt incs = (Some e, self)"
    then show ?thesis by auto
  next
    assume "\<exists>k. bt = Member k \<and> validate_increments self incs = None \<and>
        add_bonus self bt incs =
          (None, store_bonus self k (apply_increments (the (bonus_map self k)) incs))"
    then obtain k where v: "validate_increments self incs = None"
      and r: "add_bonus self bt incs =
          (None, store_bonus self k (apply_increments (the (bonus_map self k)) incs))"
      by blast
    obtain t where t: "bonus_map self k = Some t" by (simp add: bonus_map_Some)
    have "\<forall>p \<in> set incs. positive_integer (snd p)"
      using v by (simp add: validate_increments_None_iff)
    from sum_positive_amounts [OF this, of a]
    show ?thesis
      by (simp add: r t total_score_store_bonus [OF t] getattr_apply_increments)
  qed
qed

lemma increment_attribute_total_mono:
  "sum_scores self a \<le> sum_scores (snd (increment_attribute self c incs)) a"
proof -
  from increment_attribute_cases [of self c incs] show ?thesis
  proof
    assume "\<exists>e. increment_attribute self c incs = (Some e, self)"
    then show ?thesis by auto
  next
    assume "\<exists>k. c = Member k \<and> check_amounts incs = None \<and> check_totals self incs = None \<and>
        increment_attribute self c incs =
          (None, store_component self k (add_increments (the (component_map self k)) incs))"
    then obtain k where v: "check_amounts incs = None"
      and r: "increment_attribute self c incs =
          (None, store_component self k (add_increments (the (component_map self k)) incs))"
      by blast
    obtain t where t: "component_map self k = Some t" by (simp add: component_map_Some)
    have "\<forall>p \<in> set incs. positive_integer (snd p)"
      using v by (simp add: check_amounts_None_iff)
    from sum_positive_amounts [OF this, of a]
    show ?thesis
      by (simp add: r t sum_scores_store_component [OF t] getattr_add_increments)
  qed
qed

lemma add_bonus_above_cap_fails:
  assumes "MAX_SCORE < total_score self a" and "(a, v) \<in> set incs"
  shows "fst (add_bonus self bt incs) \<noteq> None"
proof -
  have "\<not> (positive_integer (snd (a, v)) \<and>
      total_score self (fst (a, v)) + int_of (snd (a, v)) \<le> MAX_SCORE)"
    using assms(1) by (auto simp: positive_integer_iff)
  then have "validate_increments self incs \<noteq> None"
    unfolding validate_increments_None_iff using assms(2) by blast
  then show ?thesis
    using add_bonus_cases [of self bt incs] by auto
qed

lemma increment_attribute_above_cap_fails:
  assumes "MAX_TOTAL < sum_scores self a" and "(a, v) \<in> set incs"
  shows "fst (increment_attribute self c incs) \<noteq> None"
proof (cases "check_amounts incs = None")
  case True
  then have "positive_integer (snd (a, v))"
    using assms(2) unfolding check_amounts_None_iff by blast
  then have "\<not> sum_scores self (fst (a, v)) + int_of (snd (a, v)) \<le> MAX_TOTAL"
    using assms(1) by (auto simp: positive_integer_iff)
  then have "check_totals self incs \<noteq> None"
    unfolding check_totals_None_iff using assms(2) by blast
  then show ?thesis
    using increment_attribute_cases [of self c incs] by auto
next
  case False
  then show ?thesis
    using increment_attribute_cases [of self c incs] by auto
qed

text \<open>
  Claim C10. The cap of 20 is not an invariant of construction: a base set with a
  strength of 25 is constructed, the aggregate on it is constructed as well, and its
  total strength is 25, in either file. The cap is checked by \<^verbatim>\<open>add_bonus\<close>
  (\<^verbatim>\<open>increment_attribute\<close>) alone: once a total is above it, every call whose
  increments name that ability fails and leaves the state as it was, and no call ever
  lowers a total, so such a state persists.
\<close>

theorem cap_enforced_only_by_increments:
  "BaseAbilities_init (PyInt 25) (PyInt 10) (PyInt 10) (PyInt 10) (PyInt 10) (PyInt 10) =
     Inr base25 \<and>
   CharacterStats_init base25 None None None = Inr stats25 \<and>
   total_score stats25 STRENGTH = 25 \<and> MAX_SCORE < total_score stats25 STRENGTH \<and>
   ScoreBase_init (PyInt 25) (PyInt 10) (PyInt 10) (PyInt 10) (PyInt 10) (PyInt 10) =
     Inr (score_base scores25) \<and>
   AbilityScores_init (score_base scores25) None None None = Inr scores25 \<and>
   sum_scores scores25 STRENGTH = 25 \<and> MAX_TOTAL < sum_scores scores25 STRENGTH \<and>
   (MAX_SCORE < total_score self a \<and> (a, v) \<in> set incs \<longrightarrow>
      fst (add_bonus self bt incs) \<noteq> None \<and> snd (add_bonus self bt incs) = self) \<and>
   (MAX_TOTAL < sum_scores self1 a1 \<and> (a1, v1) \<in> set incs1 \<longrightarrow>
      fst (increment_attribute self1 c incs1) \<noteq> None \<and>
      snd (increment_attribute self1 c incs1) = self1) \<and>
   total_score self a \<le> total_score (snd (add_bonus self bt incs)) a \<and>
   sum_scores self1 a1 \<le> sum_scores (snd (increment_attribute self1 c incs1)) a1"
proof -
  have c1: "BaseAbilities_init (PyInt 25) (PyInt 10) (PyInt 10) (PyInt 10) (PyInt 10) (PyInt 10) =
     Inr base25"
    by code_simp
  have c2: "CharacterStats_init base25 None None None = Inr stats25"
    by (simp add: CharacterStats_init_eq tag_matches_def stats25_def)
  have c3: "total_score stats25 STRENGTH = 25"
    by (simp add: total_score_sum stats25_def base25_def zero_bonus_def)
  have c4: "ScoreBase_init (PyInt 25) (PyInt 10) (PyInt 10) (PyInt 10) (PyInt 10) (PyInt 10) =
     Inr (score_base scores25)"
    by code_simp
  have c5: "AbilityScores_init (score_base scores25) None None None = Inr scores25"
    by code_simp
  have c6: "sum_scores scores25 STRENGTH = 25"
    by (simp add: sum_scores_sum scores25_def zero_layer_def)
  show ?thesis
    using c1 c2 c3 c4 c5 c6
      add_bonus_above_cap_fails [of self a v incs bt] failed_add_bonus [of self bt incs]
      increment_attribute_above_cap_fails [of self1 a1 v1 incs1 c]
      failed_increment_attribute [of self1 c incs1]
      add_bonus_total_mono [of self a bt incs]
      increment_attribute_total_mono [of self1 a1 c incs1]
    by (simp add: MAX_SCORE_def MAX_TOTAL_def)
qed

theorem cap_enforced_only_by_increments_witness:
  "MAX_SCORE < total_score stats25 STRENGTH \<and>
   (STRENGTH, PyInt 1) \<in> set [(STRENGTH, PyInt 1)] \<and>
   fst (add_bonus stats25 (Member LEVEL) [(STRENGTH, PyInt 1)]) \<noteq> None \<and>
   snd (add_bonus stats25 (Member LEVEL) [(STRENGTH, PyInt 1)]) = stats25 \<and>
   MAX_TOTAL < sum_scores scores25 STRENGTH \<and>
   fst (increment_attribute scores25 (Member LEVEL_BONUS) [(STRENGTH, PyInt 1)]) \<noteq> None \<and>
   snd (increment_attribute scores25 (Member LEVEL_BONUS) [(STRENGTH, PyInt 1)]) = scores25"
proof -
  have h: "(STRENGTH, PyInt 1) \<in> set [(STRENGTH, PyInt 1)]" by simp
  show ?thesis
    using h
      cap_enforced_only_by_increments [of stats25 STRENGTH "PyInt 1" "[(STRENGTH, PyInt 1)]"
        "Member LEVEL" scores25 STRENGTH "PyInt 1" "[(STRENGTH, PyInt 1)]" "Member LEVEL_BONUS"]
    by blast
qed

section \<open>The order of the checks\<close>

text \<open>Each validation loop stops at the first item that fails its check.\<close>

lemma check_amounts_find:
  "check_amounts incs =
     (case find (\<lambda>p. \<not> positive_integer (snd p)) incs of
        None \<Rightarrow> None
      | Some p \<Rightarrow>
          Some (ValueError (if isinstance_int (snd p) then IncrementMustBePositive (fst p)
                            else IncrementMustBeInteger (fst p))))"
  by (induction incs rule: check_amounts.induct) (auto simp: positive_integer_iff)

lemma check_totals_find:
  "check_totals self incs =
     (case find (\<lambda>p. MAX_TOTAL < sum_scores self (fst p) + int_of (snd p)) incs of
        None \<Rightarrow> None
      | Some p \<Rightarrow>
          Some (ValueError (IncrementWouldExceed (fst p)
                  (sum_scores self (fst p) + int_of (snd p)) 20)))"
  by (induction self incs rule: check_totals.induct) (auto simp: Let_def MAX_TOTAL_def)

lemma validate_increments_find:
  "validate_increments self incs =
     (case find (\<lambda>p. \<not> positive_integer (snd p) \<or>
                    MAX_SCORE < total_score self (fst p) + int_of (snd p)) incs of
        None \<Rightarrow> None
      | Some p \<Rightarrow>
          Some (ValueError (if \<not> positive_integer (snd p)
                            then BonusMustBePositiveInteger (fst p)
                            else BonusWouldExceed (fst p)
                                   (total_score self (fst p) + int_of (snd p)) 20)))"
  by (induction self incs rule: validate_increments.induct)
     (auto simp: Let_def MAX_SCORE_def positive_integer_iff)

text \<open>
  Claim C5. \<^verbatim>\<open>add_bonus\<close> first checks that every increment of the batch is a positive
  integer and only then compares the prospective totals with the cap. The first file's
  \<^verbatim>\<open>increment_attribute\<close> does so, in two loops; \<^verbatim>\<open>add_bonus\<close> of the second file has
  one loop that makes both checks on an item before it looks at the next. With strength
  +100 followed by a dexterity increment that is a string, it reports the cap for
  strength and never looks at the string.
\<close>

theorem second_file_checks_cap_before_later_amounts:
  "add_bonus fixture_stats (Member FEAT) [(STRENGTH, PyInt 100), (DEXTERITY, PyStr ''x'')] =
     (Some (ValueError (BonusWouldExceed STRENGTH 116 20)), fixture_stats) \<and>
   \<not> positive_integer (PyStr ''x'')"
  by code_simp

text \<open>
  Claim C5, as amended. In the first file every increment is checked to be a positive
  integer, and the error for an invalid increment is that of the first one that is not;
  only then are the prospective totals checked. In the second file the items are checked
  one after the other, each for a positive integer and then for the cap, and the error
  is that of the first item failing either check. In both files the prospective total is
  the total over the four layers before the call plus the amount, the error for the cap
  carries the ability, the prospective total and the cap, 20, and the increments are
  applied to the target layer only when no item has failed; a failed call leaves the
  object unchanged.
\<close>

theorem validation_precedes_application:
  "increment_attribute self1 (Member k1) incs =
     (case find (\<lambda>p. \<not> positive_integer (snd p)) incs of
        Some p \<Rightarrow>
          (Some (ValueError (if isinstance_int (snd p) then IncrementMustBePositive (fst p)
                             else IncrementMustBeInteger (fst p))), self1)
      | None \<Rightarrow>
     (case find (\<lambda>p. MAX_TOTAL < sum_scores self1 (fst p) + int_of (snd p)) incs of
        Some p \<Rightarrow>
          (Some (ValueError (IncrementWouldExceed (fst p)
                   (sum_scores self1 (fst p) + int_of (snd p)) 20)), self1)
      | None \<Rightarrow>
          (None, store_component self1 k1
                   (add_increments
                      (case k1 of RACIAL_BONUS \<Rightarrow> AbilityScores.racial_bonus self1
                       | FEAT_BONUS \<Rightarrow> AbilityScores.feat_bonus self1
                       | LEVEL_BONUS \<Rightarrow> AbilityScores.level_bonus self1) incs)))) \<and>
   add_bonus self (Member k) incs =
     (case find (\<lambda>p. \<not> positive_integer (snd p) \<or>
                    MAX_SCORE < total_score self (fst p) + int_of (snd p)) incs of
        Some p \<Rightarrow>
          (Some (ValueError (if \<not> positive_integer (snd p)
                             then BonusMustBePositiveInteger (fst p)
                             else BonusWouldExceed (fst p)
                                    (total_score self (fst p) + int_of (snd p)) 20)), self)
      | None \<Rightarrow>
          (None, store_bonus self k
                   (apply_increments
                      (case k of RACIAL \<Rightarrow> racial_bonus self | FEAT \<Rightarrow> feat_bonus self
                       | LEVEL \<Rightarrow> level_bonus self) incs))) \<and>
   total_score self a =
     getattr_field_name (base_abilities self) a + getattr_field_name (racial_bonus self) a +
     getattr_field_name (feat_bonus self) a + getattr_field_name (level_bonus self) a \<and>
   sum_scores self1 a =
     getattr_attr_name (score_base self1) a +
     getattr_attr_name (AbilityScores.racial_bonus self1) a +
     getattr_attr_name (AbilityScores.feat_bonus self1) a +
     getattr_attr_name (AbilityScores.level_bonus self1) a \<and>
   MAX_SCORE = 20 \<and> MAX_TOTAL = 20"
proof (intro conjI)
  show "increment_attribute self1 (Member k1) incs =
     (case find (\<lambda>p. \<not> positive_integer (snd p)) incs of
        Some p \<Rightarrow>
          (Some (ValueError (if isinstance_int (snd p) then IncrementMustBePositive (fst p)
                             else IncrementMustBeInteger (fst p))), self1)
      | None \<Rightarrow>
     (case find (\<lambda>p. MAX_TOTAL < sum_scores self1 (fst p) + int_of (snd p)) incs of
        Some p \<Rightarrow>
          (Some (ValueError (IncrementWouldExceed (fst p)
                   (sum_scores self1 (fst p) + int_of (snd p)) 20)), self1)
      | None \<Rightarrow>
          (None, store_component self1 k1
                   (add_increments
                      (case k1 of RACIAL_BONUS \<Rightarrow> AbilityScores.racial_bonus self1
                       | FEAT_BONUS \<Rightarrow> AbilityScores.feat_bonus self1
                       | LEVEL_BONUS \<Rightarrow> AbilityScores.level_bonus self1) incs))))"
    by (simp add: increment_attribute_def component_map_Some check_amounts_find
        check_totals_find split: option.splits)
  show "add_bonus self (Member k) incs =
     (case find (\<lambda>p. \<not> positive_integer (snd p) \<or>
                    MAX_SCORE < total_score self (fst p) + int_of (snd p)) incs of
        Some p \<Rightarrow>
          (Some (ValueError (if \<not> positive_integer (snd p)
                             then BonusMustBePositiveInteger (fst p)
                             else BonusWouldExceed (fst p)
                                    (total_score self (fst p) + int_of (snd p)) 20)), self)
      | None \<Rightarrow>
          (None, store_bonus self k
                   (apply_increments
                      (case k of RACIAL \<Rightarrow> racial_bonus self | FEAT \<Rightarrow> feat_bonus self
                       | LEVEL \<Rightarrow> level_bonus self) incs)))"
    by (simp add: add_bonus_def bonus_map_Some validate_increments_find split: option.splits)
qed (simp_all add: total_score_sum sum_scores_sum MAX_SCORE_def MAX_TOTAL_def)

theorem validation_precedes_application_witness:
  "add_bonus fixture_stats (Member FEAT) [(DEXTERITY, PyInt 2)] =
     (None, fixture_stats\<lparr>feat_bonus := (zero_bonus FEAT)\<lparr>dexterity := 2\<rparr>\<rparr>) \<and>
   increment_attribute demo_scores (Member LEVEL_BONUS)
       [(CONSTITUTION, PyInt 1), (STRENGTH, PyInt 1)] =
     (None, demo_scores\<lparr>AbilityScores.level_bonus :=
        zero_layer\<lparr>CharacterAbility.constitution := 1, CharacterAbility.strength := 1\<rparr>\<rparr>)"
  unfolding
    validation_precedes_application [of demo_scores LEVEL_BONUS
      "[(CONSTITUTION, PyInt 1), (STRENGTH, PyInt 1)]" fixture_stats FEAT
      STRENGTH, THEN conjunct1]
    validation_precedes_application [of demo_scores LEVEL_BONUS
      "[(DEXTERITY, PyInt 2)]" fixture_stats FEAT STRENGTH, THEN conjunct2, THEN conjunct1]
  by code_simp

section \<open>The two files compared\<close>

lemma same_layer_iff:
  "same_layer c d \<longleftrightarrow> (\<forall>a. getattr_attr_name c a = getattr_field_name d a)"
proof
  assume h: "same_layer c d"
  show "\<forall>a. getattr_attr_name c a = getattr_field_name d a"
  proof
    fix a show "getattr_attr_name c a = getattr_field_name d a"
      using h by (cases a) (simp_all add: same_layer_def)
  qed
next
  assume h: "\<forall>a. getattr_attr_name c a = getattr_field_name d a"
  show "same_layer c d"
    using h [rule_format, of STRENGTH] h [rule_format, of DEXTERITY]
      h [rule_format, of CONSTITUTION] h [rule_format, of WISDOM]
      h [rule_format, of INTELLIGENCE] h [rule_format, of CHARISMA]
    by (simp add: same_layer_def)
qed

lemma same_fields_totals: "same_fields x y \<Longrightarrow> sum_scores x a = total_score y a"
  by (simp add: same_fields_def same_layer_iff sum_scores_sum total_score_sum)

lemma same_layer_increments:
  "same_layer t1 t2 \<Longrightarrow> same_layer (add_increments t1 incs) (apply_increments t2 incs)"
  by (simp add: same_layer_iff getattr_add_increments getattr_apply_increments)

lemma same_fields_store:
  "same_fields x y \<Longrightarrow> same_layer t1 t2 \<Longrightarrow>
     same_fields (store_component x k t1) (store_bonus y (BonusType_of k) t2)"
  by (cases k) (simp_all add: same_fields_def)

lemma same_fields_targets:
  "same_fields x y \<Longrightarrow>
     same_layer (the (component_map x k)) (the (bonus_map y (BonusType_of k)))"
  by (cases k) (simp_all add: same_fields_def component_map_def bonus_map_def)

lemma validations_agree:
  assumes "same_fields x y"
  shows "check_amounts incs = None \<and> check_totals x incs = None \<longleftrightarrow>
     validate_increments y incs = None"
  unfolding check_amounts_None_iff check_totals_None_iff validate_increments_None_iff
  using same_fields_totals [OF assms] by (auto simp: MAX_SCORE_def MAX_TOTAL_def)

lemma increments_agree:
  assumes sf: "same_fields x y"
  shows "(fst (increment_attribute x c incs) = None \<longleftrightarrow>
            fst (add_bonus y (bonus_arg c) incs) = None) \<and>
         same_fields (snd (increment_attribute x c incs)) (snd (add_bonus y (bonus_arg c) incs))"
proof (cases c)
  case (NonMember v)
  then show ?thesis
    using sf by (simp add: increment_attribute_def add_bonus_def)
next
  case (Member k)
  show ?thesis
  proof (cases "validate_increments y incs = None")
    case True
    then have v: "check_amounts incs = None" "check_totals x incs = None"
      using validations_agree [OF sf, of incs] by simp_all
    have "same_layer (add_increments (the (component_map x k)) incs)
        (apply_increments (the (bonus_map y (BonusType_of k))) incs)"
      by (rule same_layer_increments [OF same_fields_targets [OF sf]])
    from same_fields_store [OF sf this] show ?thesis
      using True v Member
      by (simp add: increment_attribute_def add_bonus_def component_map_Some bonus_map_Some)
  next
    case False
    then have v: "\<not> (check_amounts incs = None \<and> check_totals x incs = None)"
      using validations_agree [OF sf, of incs] by simp
    have "fst (add_bonus y (bonus_arg c) incs) \<noteq> None \<and> snd (add_bonus y (bonus_arg c) incs) = y"
      using False Member
      by (auto simp: add_bonus_def bonus_map_Some split: option.splits)
    moreover have "fst (increment_attribute x c incs) \<noteq> None \<and> snd (increment_attribute x c incs) = x"
      using v Member
      by (auto simp: increment_attribute_def component_map_Some split: option.splits)
    ultimately show ?thesis using sf by auto
  qed
qed

lemma BaseAbilities_init_Inr_iff:
  "(\<exists>r. BaseAbilities_init x1 x2 x3 x4 x5 x6 = Inr r) \<longleftrightarrow>
     list_all non_negative_integer [x1, x2, x3, x4, x5, x6]"
proof
  assume "\<exists>r. BaseAbilities_init x1 x2 x3 x4 x5 x6 = Inr r"
  then have a: "AbilitySet_post_init True (dataclass_field x1 x2 x3 x4 x5 x6) Ability_members = None"
    and b: "base_non_negative (dataclass_field x1 x2 x3 x4 x5 x6) Ability_members = None"
    by (auto simp: BaseAbilities_init_def BaseAbilities_post_init_def split: option.splits)
  have "\<forall>a. non_negative_integer (dataclass_field x1 x2 x3 x4 x5 x6 a)"
    using a b
    by (simp add: AbilitySet_post_init_None_iff base_non_negative_None_iff
        set_Ability_members non_negative_integer_iff)
  then show "list_all non_negative_integer [x1, x2, x3, x4, x5, x6]"
    using list_all_fields [of non_negative_integer x1 x2 x3 x4 x5 x6] by blast
next
  assume "list_all non_negative_integer [x1, x2, x3, x4, x5, x6]"
  then have "\<forall>a. non_negative_integer (dataclass_field x1 x2 x3 x4 x5 x6 a)"
    using list_all_fields [of non_negative_integer x1 x2 x3 x4 x5 x6] by blast
  from BaseAbilities_init_ok [OF this]
  show "\<exists>r. BaseAbilities_init x1 x2 x3 x4 x5 x6 = Inr r" by blast
qed

lemma ScoreBase_init_Inr_iff:
  "(\<exists>r. ScoreBase_init x1 x2 x3 x4 x5 x6 = Inr r) \<longleftrightarrow>
     list_all non_negative_integer [x1, x2, x3, x4, x5, x6]"
  by (simp only: ScoreBase_init_eq split: if_splits) simp

lemma same_layer_constructed:
  "same_layer (CharacterAbility_init x1 x2 x3 x4 x5 x6)
     \<lparr>strength = int_of x1, dexterity = int_of x2, constitution = int_of x3,
      wisdom = int_of x4, intelligence = int_of x5, charisma = int_of x6, \<dots> = m\<rparr>"
  by (simp add: same_layer_def CharacterAbility_init_def)

lemma same_layer_base:
  assumes "ScoreBase_init x1 x2 x3 x4 x5 x6 = Inr r1"
    and "BaseAbilities_init x1 x2 x3 x4 x5 x6 = Inr r2"
  shows "same_layer r1 r2"
proof -
  have "list_all non_negative_integer [x1, x2, x3, x4, x5, x6]"
    using assms(1) ScoreBase_init_Inr_iff [of x1 x2 x3 x4 x5 x6] by blast
  then have f: "\<forall>a. non_negative_integer (dataclass_field x1 x2 x3 x4 x5 x6 a)"
    using list_all_fields [of non_negative_integer x1 x2 x3 x4 x5 x6] by blast
  have "r1 = CharacterAbility_init x1 x2 x3 x4 x5 x6"
    using assms(1) by (simp add: ScoreBase_init_def split: if_splits)
  moreover have "r2 = \<lparr>strength = int_of x1, dexterity = int_of x2, constitution = int_of x3,
      wisdom = int_of x4, intelligence = int_of x5, charisma = int_of x6\<rparr>"
    using assms(2) BaseAbilities_init_ok [OF f] by simp
  ultimately show ?thesis
    by (simp only: same_layer_constructed)
qed

lemma same_layer_bonus:
  assumes "AbilityBonus_init x1 x2 x3 x4 x5 x6 bt = Inr r2"
  shows "same_layer (CharacterAbility_init x1 x2 x3 x4 x5 x6) r2"
proof -
  from AbilityBonus_init_Inr [OF assms]
  obtain t where f: "\<forall>a. non_negative_integer (dataclass_field x1 x2 x3 x4 x5 x6 a)"
    and t: "bt = Member t" by blast
  have "r2 = \<lparr>strength = int_of x1, dexterity = int_of x2, constitution = int_of x3,
      wisdom = int_of x4, intelligence = int_of x5, charisma = int_of x6, bonus_type = t\<rparr>"
    using assms AbilityBonus_init_ok [OF f, of t] by (simp add: t)
  then show ?thesis
    by (simp only: same_layer_constructed)
qed

lemma modifiers_agree: "same_fields x y \<Longrightarrow> ability_mod x a = modifier y a"
  by (simp add: ability_mod_eq modifier_def same_fields_totals)

text \<open>
  Claim C9. The two files behave alike: on aggregates with the same field values the
  totals and the modifiers agree; the constructors of corresponding layer sets succeed
  or fail alike on the same field values; and \<^verbatim>\<open>increment_attribute\<close> and
  \<^verbatim>\<open>add_bonus\<close> both fail or both succeed with the same field values. The constructors
  of the bonus sets do not agree: a racial bonus with strength -2 is constructed by
  the first file and refused by the second.
\<close>

theorem bonus_constructors_disagree_on_negative:
  "RacialBonus_init (PyInt (- 2)) (PyInt 0) (PyInt 0) (PyInt 0) (PyInt 0) (PyInt 0) =
     Inr \<lparr>CharacterAbility.strength = - 2, dexterity = 0, constitution = 0, wisdom = 0,
          intelligence = 0, charisma = 0\<rparr> \<and>
   AbilityBonus_init (PyInt (- 2)) (PyInt 0) (PyInt 0) (PyInt 0) (PyInt 0) (PyInt 0)
       (Member RACIAL) =
     Inl (ValueError (CannotBeNegativeForBonuses STRENGTH))"
  by code_simp

text \<open>
  Claim C9, as amended. On aggregates with the same field values in the four layers,
  \<^verbatim>\<open>_sum_scores\<close> and the modifier properties of the first file agree with
  \<^verbatim>\<open>total_score\<close> and \<^verbatim>\<open>modifier\<close> of the second on every ability. The constructors of
  the base set succeed on the same arguments and build the same field values. The
  constructor of a bonus set in the second file succeeds exactly when the one in the
  first file does and no field is negative, and then both build the same field values
  (the three bonus constructors of the first file succeed on the same arguments). And
  \<^verbatim>\<open>increment_attribute\<close> and \<^verbatim>\<open>add_bonus\<close>, given corresponding categories and the
  same increments, both fail or both succeed, and leave the same field values.
\<close>

theorem versions_agree_except_negative_bonus:
  "(same_fields x y \<longrightarrow>
      sum_scores x a = total_score y a \<and> ability_mod x a = modifier y a) \<and>
   ((\<exists>r. ScoreBase_init x1 x2 x3 x4 x5 x6 = Inr r) \<longleftrightarrow>
      (\<exists>r. BaseAbilities_init x1 x2 x3 x4 x5 x6 = Inr r)) \<and>
   (ScoreBase_init x1 x2 x3 x4 x5 x6 = Inr r1 \<and> BaseAbilities_init x1 x2 x3 x4 x5 x6 = Inr r2 \<longrightarrow>
      same_layer r1 r2) \<and>
   ((\<exists>r. AbilityBonus_init x1 x2 x3 x4 x5 x6 (Member t) = Inr r) \<longleftrightarrow>
      (\<exists>r. RacialBonus_init x1 x2 x3 x4 x5 x6 = Inr r) \<and>
      list_all non_negative_integer [x1, x2, x3, x4, x5, x6]) \<and>
   ((\<exists>r. RacialBonus_init x1 x2 x3 x4 x5 x6 = Inr r) \<longleftrightarrow>
      (\<exists>r. FeatBonus_init x1 x2 x3 x4 x5 x6 = Inr r)) \<and>
   ((\<exists>r. RacialBonus_init x1 x2 x3 x4 x5 x6 = Inr r) \<longleftrightarrow>
      (\<exists>r. LevelBonus_init x1 x2 x3 x4 x5 x6 = Inr r)) \<and>
   (AbilityBonus_init x1 x2 x3 x4 x5 x6 (Member t) = Inr b2 \<longrightarrow>
      RacialBonus_init x1 x2 x3 x4 x5 x6 = Inr (CharacterAbility_init x1 x2 x3 x4 x5 x6) \<and>
      FeatBonus_init x1 x2 x3 x4 x5 x6 = Inr (CharacterAbility_init x1 x2 x3 x4 x5 x6) \<and>
      LevelBonus_init x1 x2 x3 x4 x5 x6 = Inr (CharacterAbility_init x1 x2 x3 x4 x5 x6) \<and>
      same_layer (CharacterAbility_init x1 x2 x3 x4 x5 x6) b2) \<and>
   (same_fields x y \<longrightarrow>
      (fst (increment_attribute x c incs) = None \<longleftrightarrow>
         fst (add_bonus y (bonus_arg c) incs) = None) \<and>
      same_fields (snd (increment_attribute x c incs)) (snd (add_bonus y (bonus_arg c) incs)))"
proof (intro conjI impI)
  show "(\<exists>r. ScoreBase_init x1 x2 x3 x4 x5 x6 = Inr r) \<longleftrightarrow>
      (\<exists>r. BaseAbilities_init x1 x2 x3 x4 x5 x6 = Inr r)"
    by (simp only: ScoreBase_init_Inr_iff BaseAbilities_init_Inr_iff)
  have nn: "list_all non_negative_integer [x1, x2, x3, x4, x5, x6] \<Longrightarrow>
      list_all isinstance_int [x1, x2, x3, x4, x5, x6]"
    using non_int_not_non_negative [of "[x1, x2, x3, x4, x5, x6]"] by blast
  show "(\<exists>r. AbilityBonus_init x1 x2 x3 x4 x5 x6 (Member t) = Inr r) \<longleftrightarrow>
      (\<exists>r. RacialBonus_init x1 x2 x3 x4 x5 x6 = Inr r) \<and>
      list_all non_negative_integer [x1, x2, x3, x4, x5, x6]"
    using nn by (auto simp only: AbilityBonus_init_Inr_iff v1_bonus_init_eq split: if_splits)
  show "(\<exists>r. RacialBonus_init x1 x2 x3 x4 x5 x6 = Inr r) \<longleftrightarrow>
      (\<exists>r. FeatBonus_init x1 x2 x3 x4 x5 x6 = Inr r)"
    by (simp add: v1_bonus_init_eq)
  show "(\<exists>r. RacialBonus_init x1 x2 x3 x4 x5 x6 = Inr r) \<longleftrightarrow>
      (\<exists>r. LevelBonus_init x1 x2 x3 x4 x5 x6 = Inr r)"
    by (simp add: v1_bonus_init_eq)
  {
    assume b: "AbilityBonus_init x1 x2 x3 x4 x5 x6 (Member t) = Inr b2"
    then have "list_all non_negative_integer [x1, x2, x3, x4, x5, x6]"
      using AbilityBonus_init_Inr_iff [of x1 x2 x3 x4 x5 x6 "Member t"] by blast
    then have i: "list_all isinstance_int [x1, x2, x3, x4, x5, x6]" by (rule nn)
    show "RacialBonus_init x1 x2 x3 x4 x5 x6 = Inr (CharacterAbility_init x1 x2 x3 x4 x5 x6)"
      using i by (simp only: v1_bonus_init_eq if_True)
    show "FeatBonus_init x1 x2 x3 x4 x5 x6 = Inr (CharacterAbility_init x1 x2 x3 x4 x5 x6)"
      using i by (simp only: v1_bonus_init_eq if_True)
    show "LevelBonus_init x1 x2 x3 x4 x5 x6 = Inr (CharacterAbility_init x1 x2 x3 x4 x5 x6)"
      using i by (simp only: v1_bonus_init_eq if_True)
    show "same_layer (CharacterAbility_init x1 x2 x3 x4 x5 x6) b2"
      using b by (rule same_layer_bonus)
  }
  {
    assume "ScoreBase_init x1 x2 x3 x4 x5 x6 = Inr r1 \<and> BaseAbilities_init x1 x2 x3 x4 x5 x6 = Inr r2"
    then show "same_layer r1 r2" using same_layer_base by blast
  }
  {
    assume sf: "same_fields x y"
    show "sum_scores x a = total_score y a" using sf by (rule same_fields_totals)
    show "ability_mod x a = modifier y a" using sf by (rule modifiers_agree)
    show "fst (increment_attribute x c incs) = None \<longleftrightarrow>
         fst (add_bonus y (bonus_arg c) incs) = None"
      using increments_agree [OF sf] by blast
    show "same_fields (snd (increment_attribute x c incs)) (snd (add_bonus y (bonus_arg c) incs))"
      using increments_agree [OF sf] by blast
  }
qed

theorem versions_agree_except_negative_bonus_witness:
  "same_fields demo_scores demo_stats \<and>
   sum_scores demo_scores STRENGTH = total_score demo_stats STRENGTH \<and>
   ability_mod demo_scores STRENGTH = modifier demo_stats STRENGTH \<and>
   ScoreBase_init (PyInt 16) (PyInt 13) (PyInt 15) (PyInt 12) (PyInt 8) (PyInt 10) =
     Inr (score_base demo_scores) \<and>
   BaseAbilities_init (PyInt 16) (PyInt 13) (PyInt 15) (PyInt 12) (PyInt 8) (PyInt 10) =
     Inr (base_abilities demo_stats) \<and>
   same_layer (score_base demo_scores) (base_abilities demo_stats) \<and>
   AbilityBonus_init (PyInt 2) (PyInt 1) (PyInt 0) (PyInt 0) (PyInt 0) (PyInt 0) (Member RACIAL) =
     Inr (racial_bonus demo_stats) \<and>
   RacialBonus_init (PyInt 2) (PyInt 1) (PyInt 0) (PyInt 0) (PyInt 0) (PyInt 0) =
     Inr (CharacterAbility_init (PyInt 2) (PyInt 1) (PyInt 0) (PyInt 0) (PyInt 0) (PyInt 0)) \<and>
   same_layer (CharacterAbility_init (PyInt 2) (PyInt 1) (PyInt 0) (PyInt 0) (PyInt 0) (PyInt 0))
     (racial_bonus demo_stats) \<and>
   same_fields
     (snd (increment_attribute demo_scores (Member RACIAL_BONUS) [(WISDOM, PyInt 3)]))
     (snd (add_bonus demo_stats (bonus_arg (Member RACIAL_BONUS)) [(WISDOM, PyInt 3)]))"
proof -
  have h1: "same_fields demo_scores demo_stats" by code_simp
  have h2: "ScoreBase_init (PyInt 16) (PyInt 13) (PyInt 15) (PyInt 12) (PyInt 8) (PyInt 10) =
     Inr (score_base demo_scores) \<and>
   BaseAbilities_init (PyInt 16) (PyInt 13) (PyInt 15) (PyInt 12) (PyInt 8) (PyInt 10) =
     Inr (base_abilities demo_stats)"
    by code_simp
  have h3: "AbilityBonus_init (PyInt 2) (PyInt 1) (PyInt 0) (PyInt 0) (PyInt 0) (PyInt 0)
      (Member RACIAL) = Inr (racial_bonus demo_stats)"
    by code_simp
  note T1 = versions_agree_except_negative_bonus [of demo_scores demo_stats STRENGTH
      "PyInt 16" "PyInt 13" "PyInt 15" "PyInt 12" "PyInt 8" "PyInt 10"
      "score_base demo_scores" "base_abilities demo_stats" RACIAL "racial_bonus demo_stats"
      "Member RACIAL_BONUS" "[(WISDOM, PyInt 3)]"]
  note T2 = versions_agree_except_negative_bonus [of demo_scores demo_stats STRENGTH
      "PyInt 2" "PyInt 1" "PyInt 0" "PyInt 0" "PyInt 0" "PyInt 0"
      "score_base demo_scores" "base_abilities demo_stats" RACIAL "racial_bonus demo_stats"
      "Member RACIAL_BONUS" "[(WISDOM, PyInt 3)]"]
  have a: "sum_scores demo_scores STRENGTH = total_score demo_stats STRENGTH \<and>
      ability_mod demo_scores STRENGTH = modifier demo_stats STRENGTH"
    using T1 h1 by blast
  have b: "same_layer (score_base demo_scores) (base_abilities demo_stats)"
    using T1 h2 by blast
  have c: "RacialBonus_init (PyInt 2) (PyInt 1) (PyInt 0) (PyInt 0) (PyInt 0) (PyInt 0) =
     Inr (CharacterAbility_init (PyInt 2) (PyInt 1) (PyInt 0) (PyInt 0) (PyInt 0) (PyInt 0)) \<and>
   same_layer (CharacterAbility_init (PyInt 2) (PyInt 1) (PyInt 0) (PyInt 0) (PyInt 0) (PyInt 0))
     (racial_bonus demo_stats)"
    using T2 h3 by blast
  have d: "same_fields
     (snd (increment_attribute demo_scores (Member RACIAL_BONUS) [(WISDOM, PyInt 3)]))
     (snd (add_bonus demo_stats (bonus_arg (Member RACIAL_BONUS)) [(WISDOM, PyInt 3)]))"
    using T1 h1 by blast
  show ?thesis
    using h1 a h2 b h3 c d by (intro conjI) (erule conjunct1 conjunct2 | assumption)+
qed

end
